theory Spec2Isabelle
  imports Complex_Main "HOL-Library.Monad_Syntax" "HOL-Library.Multiset"
    "HOL-Library.Product_Lexorder"
begin

section \<open>Python values\<close>

text \<open>
  The analyzer of \<^verbatim>\<open>bot.py\<close> reads the JSON bodies of its HTTP responses with Python's
  dynamic operations: \<^verbatim>\<open>d.get(k, default)\<close>, truth tests, \<^verbatim>\<open>float(x)\<close>, \<^verbatim>\<open>int(x)\<close>,
  iteration. A decoded body is a value of \<open>json\<close>; an operation that raises in Python
  returns \<open>None\<close> here. Every \<^verbatim>\<open>try\<close> of the source catches \<^verbatim>\<open>Exception\<close> and does the
  same whatever was raised, so the exception itself is not kept.

  A Python float is a double: a finite one is given by the real number it denotes, and
  there are the two infinities and NaN. Python ints are integers.
\<close>

datatype pyfloat = Finite real | PosInf | NegInf | NaN

instantiation pyfloat :: zero
begin

definition zero_pyfloat :: pyfloat where
  "0 = Finite 0"

instance ..

end

fun float_gt0 :: "pyfloat \<Rightarrow> bool" where
  \<comment> \<open>\<^verbatim>\<open>x > 0\<close>: a comparison of floats is exact, and false on NaN.\<close>
  "float_gt0 (Finite r) = (0 < r)"
| "float_gt0 PosInf = True"
| "float_gt0 NegInf = False"
| "float_gt0 NaN = False"

fun float_rank :: "pyfloat \<Rightarrow> int \<times> real" where
  \<comment> \<open>The position of a float in the order of \<^verbatim>\<open><\<close>, for sorting. NaN compares false with
      everything and \<^verbatim>\<open>list.sort\<close> leaves it where its comparisons happen to put it; it is
      put last here.\<close>
  "float_rank NegInf = (- 1, 0)"
| "float_rank (Finite r) = (0, r)"
| "float_rank PosInf = (1, 0)"
| "float_rank NaN = (2, 0)"

datatype json =
    JNull
  | JBool bool
  | JInt int
  | JFloat pyfloat
  | JStr string
  | JArr "json list"
  | JObj "(string \<times> json) list"

fun truthy :: "json \<Rightarrow> bool" where
  "truthy JNull = False"
| "truthy (JBool b) = b"
| "truthy (JInt i) = (i \<noteq> 0)"
| "truthy (JFloat x) = (x \<noteq> 0)"
| "truthy (JStr s) = (s \<noteq> [])"
| "truthy (JArr xs) = (xs \<noteq> [])"
| "truthy (JObj kvs) = (kvs \<noteq> [])"

fun py_get :: "json \<Rightarrow> string \<Rightarrow> json \<Rightarrow> json option" where
  \<comment> \<open>\<^verbatim>\<open>d.get(k, default)\<close>: only a dict has the method.\<close>
  "py_get (JObj kvs) k dflt = Some (case map_of kvs k of None \<Rightarrow> dflt | Some v \<Rightarrow> v)"
| "py_get _ k dflt = None"

fun py_iter :: "json \<Rightarrow> json list option" where
  \<comment> \<open>The elements a \<^verbatim>\<open>for\<close> loop visits: a str gives its characters, a dict its keys.\<close>
  "py_iter (JArr xs) = Some xs"
| "py_iter (JStr s) = Some (map (\<lambda>c. JStr [c]) s)"
| "py_iter (JObj kvs) = Some (map (\<lambda>kv. JStr (fst kv)) kvs)"
| "py_iter _ = None"

text \<open>
  The functions of Python and of its libraries that the analyzer calls are not code of the
  repository; those whose result is not fixed by the values alone are parameters of the
  model. They are the conversions \<^verbatim>\<open>float(s)\<close> and \<^verbatim>\<open>int(s)\<close> of a str and \<^verbatim>\<open>float(i)\<close> of an
  int (which raises \<^verbatim>\<open>OverflowError\<close> beyond the range of the doubles), the operations on
  floats that round their result (\<^verbatim>\<open>sum\<close> of a non-empty list of floats, \<^verbatim>\<open>/\<close> by a non-zero
  float, \<^verbatim>\<open>*\<close>, \<^verbatim>\<open>round(x, 2)\<close>), the true division \<^verbatim>\<open>i / j\<close> of two ints, and
  \<^verbatim>\<open>base58.b58decode(s)\<close> (the decoded bytes). \<open>None\<close> is where they raise.
\<close>

record pylib =
  float_of_str :: "string \<Rightarrow> pyfloat option"
  float_of_int :: "int \<Rightarrow> pyfloat option"
  int_of_str :: "string \<Rightarrow> int option"
  float_sum :: "pyfloat list \<Rightarrow> pyfloat"
  float_div :: "pyfloat \<Rightarrow> pyfloat \<Rightarrow> pyfloat"
  float_mul :: "pyfloat \<Rightarrow> pyfloat \<Rightarrow> pyfloat"
  float_round2 :: "pyfloat \<Rightarrow> pyfloat"
  int_true_div :: "int \<Rightarrow> int \<Rightarrow> pyfloat option"
  b58decode :: "string \<Rightarrow> nat list option"

fun py_float :: "pylib \<Rightarrow> json \<Rightarrow> pyfloat option" where
  "py_float L (JInt i) = float_of_int L i"
| "py_float L (JFloat x) = Some x"
| "py_float L (JBool b) = Some (Finite (if b then 1 else 0))"
| "py_float L (JStr s) = float_of_str L s"
| "py_float L _ = None"

fun py_int :: "pylib \<Rightarrow> json \<Rightarrow> int option" where
  \<comment> \<open>\<^verbatim>\<open>int\<close> of a finite float truncates towards zero; of an infinity or NaN it raises.\<close>
  "py_int L (JInt i) = Some i"
| "py_int L (JFloat (Finite r)) = Some (if 0 \<le> r then \<lfloor>r\<rfloor> else \<lceil>r\<rceil>)"
| "py_int L (JBool b) = Some (if b then 1 else 0)"
| "py_int L (JStr s) = int_of_str L s"
| "py_int L _ = None"

definition py_or :: "int \<Rightarrow> int \<Rightarrow> int" where
  \<comment> \<open>\<^verbatim>\<open>a or b\<close> on ints: \<^verbatim>\<open>a\<close> when it is truthy (non-zero), else \<^verbatim>\<open>b\<close>.\<close>
  "py_or a b = (if a \<noteq> 0 then a else b)"

definition py_sum :: "pylib \<Rightarrow> pyfloat list \<Rightarrow> pyfloat" where
  \<comment> \<open>\<^verbatim>\<open>sum(xs)\<close> of a list of floats; of the empty list it is the int 0.\<close>
  "py_sum L xs = (if xs = [] then 0 else float_sum L xs)"

definition py_div :: "pylib \<Rightarrow> pyfloat \<Rightarrow> pyfloat \<Rightarrow> pyfloat option" where
  \<comment> \<open>\<^verbatim>\<open>x / y\<close> on floats raises \<^verbatim>\<open>ZeroDivisionError\<close> when \<^verbatim>\<open>y\<close> is zero.\<close>
  "py_div L x y = (if y = 0 then None else Some (float_div L x y))"

definition sort_reverse :: "('a \<Rightarrow> pyfloat) \<Rightarrow> 'a list \<Rightarrow> 'a list" where
  \<comment> \<open>\<^verbatim>\<open>sorted(xs, key=key, reverse=True)\<close>: descending, equal keys in their original order.\<close>
  "sort_reverse key xs = rev (sort_key (\<lambda>x. float_rank (key x)) (rev xs))"

section \<open>The network\<close>

text \<open>
  Every method that awaits an HTTP call takes the list of the requests issued so far and
  returns it extended. The network answers a request by what the call does, which may
  depend on how many requests came before, so the same request can be answered
  differently when it is repeated. A call that raises an \<^verbatim>\<open>Exception\<close> (transport error,
  timeout) is \<open>Raises\<close>; a response carries its status and its decoded body, \<open>None\<close> when
  \<^verbatim>\<open>response.json()\<close> raises. A call can also be cancelled: it raises
  \<^verbatim>\<open>asyncio.CancelledError\<close>, which is a \<^verbatim>\<open>BaseException\<close> and not an \<^verbatim>\<open>Exception\<close>, so that no
  \<^verbatim>\<open>except Exception\<close> of the source catches it and the method that awaits the call raises
  it in turn: an awaited method returns its value or raises the cancellation.
\<close>

datatype request =
    DexscreenerTokens string
  | HeliusGetAsset string
  | HeliusGetTokenAccounts string
  | SolanaGetTokenSupply string
  | SolanaGetProgramAccounts string
  | SolanaGetAccountInfo string
  | SolscanTokenHolders string

datatype response = Raises | Response int "json option"

datatype call = Cancelled | Done response

type_synonym network = "nat \<Rightarrow> request \<Rightarrow> call"

definition http :: "network \<Rightarrow> request \<Rightarrow> request list \<Rightarrow> call \<times> request list" where
  "http net req sent = (net (length sent) req, sent @ [req])"

datatype 'a awaited = Cancelled_error | Returned 'a

section \<open>Dictionaries of the analyzer\<close>

text \<open>
  A dict whose keys are fixed by the code that builds it is a record; field \<open>k\<close> of the
  dict bound to the variable \<open>d\<close> in \<^verbatim>\<open>analyze_token\<close> is named \<open>d_k\<close> (the dicts share key
  names). The dicts of the market source and of the holder strategies hold floats; their
  records take the type of the floats as a parameter, \<open>pyfloat\<close> where the sources build
  them. \<^verbatim>\<open>calculate_score\<close> reads its dict with \<^verbatim>\<open>data.get(key, default)\<close> only, so the
  eight keys it reads are optional fields of \<open>analysis_data\<close>: \<open>None\<close> is an absent key.
  \<^verbatim>\<open>analyze_token\<close> adds the keys \<^verbatim>\<open>score\<close> and \<^verbatim>\<open>explanations\<close> to the dict it has scored:
  the extended record \<open>analysis_result\<close>.

  In the record that is scored the floats are read as real numbers: every finite float is
  one, comparing a float with an integer literal is exact, and the rounding error of the
  product and of the quotient in the market cap is left out.
\<close>

record 'f dex_data =
  dex_pools :: int
  dex_price_usd :: 'f
  dex_price_change_24h :: 'f
  dex_volume_24h :: 'f
  dex_liquidity :: 'f

record metadata =
  md_name :: json
  md_symbol :: json
  md_supply :: int
  md_decimals :: int
  md_created_at :: "string option"

record supply_info =
  si_supply :: int
  si_decimals :: int

record 'f holders_info =
  hi_holders :: int
  hi_top_10_share :: 'f

record analysis_data =
  ad_mint :: string
  ad_name :: json
  ad_symbol :: json
  ad_created_at :: "string option"
  ad_pools :: "int option"
  ad_liquidity :: "real option"
  ad_volume_24h :: "real option"
  ad_price_usd :: real
  ad_price_change_24h :: "real option"
  ad_market_cap :: "real option"
  ad_supply :: int
  ad_decimals :: int
  ad_holders :: "int option"
  ad_top_10_share :: "real option"
  ad_rug_pull_risk :: "bool option"

record analysis_result = analysis_data +
  ad_score :: int
  ad_explanations :: "string list"

definition dict_get :: "'a option \<Rightarrow> 'a \<Rightarrow> 'a" where
  \<comment> \<open>\<^verbatim>\<open>data.get(key, default)\<close> on an optional field.\<close>
  "dict_get field dflt = (case field of None \<Rightarrow> dflt | Some v \<Rightarrow> v)"

section \<open>The identifier validator\<close>

definition is_valid_mint :: "pylib \<Rightarrow> string \<Rightarrow> bool" where
  "is_valid_mint L mint =
     (if mint = [] \<or> length mint < 32 \<or> length mint > 44 then False
      else (case b58decode L mint of Some decoded \<Rightarrow> True | None \<Rightarrow> False))"

section \<open>The data sources\<close>

text \<open>
  Each source is one \<^verbatim>\<open>try\<close> block followed by the return of the default dict. The body of
  the \<^verbatim>\<open>try\<close> is a function of the response that gives the dict it returns, and \<open>None\<close> when
  it raises or runs to its end without returning, the two cases in which the source goes
  on to the statement after the \<^verbatim>\<open>try\<close>. A cancelled call leaves the method at once.
\<close>

definition h24_of :: "pylib \<Rightarrow> string \<Rightarrow> string \<Rightarrow> json \<Rightarrow> pyfloat option" where
  \<comment> \<open>\<^verbatim>\<open>float(pair.get(outer, {}).get(inner, 0))\<close>\<close>
  "h24_of L outer inner pair = do {
     d \<leftarrow> py_get pair outer (JObj []);
     v \<leftarrow> py_get d inner (JInt 0);
     py_float L v }"

fun first_price :: "pylib \<Rightarrow> json list \<Rightarrow> (pyfloat \<times> pyfloat) option" where
  \<comment> \<open>The loop over the pairs that stops at the first one with a truthy \<^verbatim>\<open>priceUsd\<close>.\<close>
  "first_price L [] = Some (0, 0)"
| "first_price L (pair # pairs) = do {
     p \<leftarrow> py_get pair ''priceUsd'' JNull;
     if truthy p then do {
       price_usd \<leftarrow> py_float L p;
       price_change_24h \<leftarrow> h24_of L ''priceChange'' ''h24'' pair;
       Some (price_usd, price_change_24h) }
     else first_price L pairs }"

definition dexscreener_body :: "pylib \<Rightarrow> response \<Rightarrow> pyfloat dex_data option" where
  "dexscreener_body L resp =
     (case resp of
        Raises \<Rightarrow> None
      | Response status body \<Rightarrow>
          if status = 200 then do {
            data \<leftarrow> body;
            pairs_field \<leftarrow> py_get data ''pairs'' JNull;
            if truthy pairs_field then do {
              pairs \<leftarrow> py_iter pairs_field;
              volumes \<leftarrow> those (map (h24_of L ''volume'' ''h24'') pairs);
              liquidities \<leftarrow> those (map (h24_of L ''liquidity'' ''usd'') pairs);
              (price_usd, price_change_24h) \<leftarrow> first_price L pairs;
              Some \<lparr>dex_pools = int (length pairs),
                    dex_price_usd = price_usd,
                    dex_price_change_24h = price_change_24h,
                    dex_volume_24h = py_sum L volumes,
                    dex_liquidity = py_sum L liquidities\<rparr> }
            else None }
          else None)"

definition dex_default :: "'f::zero dex_data" where
  "dex_default = \<lparr>dex_pools = 0, dex_price_usd = 0, dex_price_change_24h = 0,
                   dex_volume_24h = 0, dex_liquidity = 0\<rparr>"

definition get_dexscreener_data ::
  "pylib \<Rightarrow> network \<Rightarrow> string \<Rightarrow> request list \<Rightarrow> pyfloat dex_data awaited \<times> request list" where
  "get_dexscreener_data L net mint sent =
     (let (outcome, sent) = http net (DexscreenerTokens mint) sent in
      (case outcome of
         Cancelled \<Rightarrow> Cancelled_error
       | Done resp \<Rightarrow>
           Returned (case dexscreener_body L resp of Some d \<Rightarrow> d | None \<Rightarrow> dex_default),
       sent))"

definition metadata_body :: "pylib \<Rightarrow> response \<Rightarrow> metadata option" where
  "metadata_body L resp =
     (case resp of
        Raises \<Rightarrow> None
      | Response status body \<Rightarrow>
          if status = 200 then do {
            data \<leftarrow> body;
            result \<leftarrow> py_get data ''result'' (JObj []);
            token_info \<leftarrow> py_get result ''token_info'' (JObj []);
            supply_field \<leftarrow> py_get token_info ''supply'' (JInt 0);
            supply \<leftarrow> py_int L supply_field;
            decimals_field \<leftarrow> py_get token_info ''decimals'' (JInt 0);
            decimals \<leftarrow> py_int L decimals_field;
            content \<leftarrow> py_get result ''content'' (JObj []);
            meta \<leftarrow> py_get content ''metadata'' (JObj []);
            name \<leftarrow> py_get meta ''name'' (JStr ''Unknown'');
            symbol \<leftarrow> py_get meta ''symbol'' (JStr ''Unknown'');
            Some \<lparr>md_name = name, md_symbol = symbol, md_supply = supply,
                  md_decimals = decimals, md_created_at = None\<rparr> }
          else None)"

definition metadata_default :: metadata where
  "metadata_default = \<lparr>md_name = JStr ''Unknown'', md_symbol = JStr ''Unknown'', md_supply = 0,
                        md_decimals = 0, md_created_at = None\<rparr>"

definition get_token_metadata ::
  "pylib \<Rightarrow> network \<Rightarrow> string \<Rightarrow> request list \<Rightarrow> metadata awaited \<times> request list" where
  "get_token_metadata L net mint sent =
     (let (outcome, sent) = http net (HeliusGetAsset mint) sent in
      (case outcome of
         Cancelled \<Rightarrow> Cancelled_error
       | Done resp \<Rightarrow>
           Returned (case metadata_body L resp of Some d \<Rightarrow> d | None \<Rightarrow> metadata_default),
       sent))"

definition supply_body :: "pylib \<Rightarrow> response \<Rightarrow> supply_info option" where
  "supply_body L resp =
     (case resp of
        Raises \<Rightarrow> None
      | Response status body \<Rightarrow>
          if status = 200 then do {
            data \<leftarrow> body;
            result \<leftarrow> py_get data ''result'' (JObj []);
            val \<leftarrow> py_get result ''value'' (JObj []);
            amount_field \<leftarrow> py_get val ''amount'' (JInt 0);
            amount \<leftarrow> py_int L amount_field;
            decimals_field \<leftarrow> py_get val ''decimals'' (JInt 0);
            decimals \<leftarrow> py_int L decimals_field;
            Some \<lparr>si_supply = amount, si_decimals = decimals\<rparr> }
          else None)"

definition supply_default :: supply_info where
  "supply_default = \<lparr>si_supply = 0, si_decimals = 0\<rparr>"

definition get_token_supply_info ::
  "pylib \<Rightarrow> network \<Rightarrow> string \<Rightarrow> request list \<Rightarrow> supply_info awaited \<times> request list" where
  "get_token_supply_info L net mint sent =
     (let (outcome, sent) = http net (SolanaGetTokenSupply mint) sent in
      (case outcome of
         Cancelled \<Rightarrow> Cancelled_error
       | Done resp \<Rightarrow>
           Returned (case supply_body L resp of Some d \<Rightarrow> d | None \<Rightarrow> supply_default),
       sent))"

section \<open>The holder distribution\<close>

record holder =
  address :: json
  amount :: pyfloat

definition holders_zero :: "'f::zero holders_info" where
  "holders_zero = \<lparr>hi_holders = 0, hi_top_10_share = 0\<rparr>"

definition holders_summary :: "pylib \<Rightarrow> holder list \<Rightarrow> pyfloat holders_info option" where
  \<comment> \<open>From \<^verbatim>\<open>total_holders = len(holders_data)\<close> on: the same lines in the indexer strategy
      and in the ledger scan. The list is sorted in place, so the total is the sum of the
      sorted list. \<^verbatim>\<open>round(0, 2)\<close> of the int 0 is the int 0. \<open>None\<close>: no \<^verbatim>\<open>return\<close> was
      reached.\<close>
  "holders_summary L holders_data =
     (let total_holders = length holders_data in
      if total_holders > 0 then
        let holders_data = sort_reverse amount holders_data;
            top_10 = take 10 holders_data;
            total_supply = py_sum L (map amount holders_data);
            top_10_amount = py_sum L (map amount top_10)
        in do {
          top_10_share \<leftarrow>
            (if float_gt0 total_supply then do {
               quotient \<leftarrow> py_div L top_10_amount total_supply;
               Some (float_round2 L (float_mul L quotient (Finite 100))) }
             else Some 0);
          Some \<lparr>hi_holders = int total_holders, hi_top_10_share = top_10_share\<rparr> }
      else None)"

fun helius_accounts :: "pylib \<Rightarrow> json list \<Rightarrow> holder list option" where
  \<comment> \<open>The loop over \<^verbatim>\<open>token_accounts\<close> that fills \<^verbatim>\<open>holders_data\<close>.\<close>
  "helius_accounts L [] = Some []"
| "helius_accounts L (account # accounts) = do {
     amount_field \<leftarrow> py_get account ''amount'' (JInt 0);
     amount \<leftarrow> py_float L amount_field;
     if float_gt0 amount then do {
       addr \<leftarrow> py_get account ''address'' (JStr '''');
       holders_data \<leftarrow> helius_accounts L accounts;
       Some (\<lparr>address = addr, amount = amount\<rparr> # holders_data) }
     else helius_accounts L accounts }"

definition helius_body :: "pylib \<Rightarrow> response \<Rightarrow> pyfloat holders_info option" where
  "helius_body L resp =
     (case resp of
        Raises \<Rightarrow> None
      | Response status body \<Rightarrow>
          if status = 200 then do {
            data \<leftarrow> body;
            result \<leftarrow> py_get data ''result'' (JObj []);
            token_accounts \<leftarrow> py_get result ''token_accounts'' (JArr []);
            if truthy token_accounts then do {
              accounts \<leftarrow> py_iter token_accounts;
              holders_data \<leftarrow> helius_accounts L accounts;
              holders_summary L holders_data }
            else None }
          else None)"

definition token_amount_of :: "pylib \<Rightarrow> json \<Rightarrow> pyfloat option" where
  \<comment> \<open>\<^verbatim>\<open>float(info.get("tokenAmount", {}).get("amount", 0))\<close> of a program account.\<close>
  "token_amount_of L account = do {
     account_data \<leftarrow> py_get account ''account'' (JObj []);
     d \<leftarrow> py_get account_data ''data'' (JObj []);
     parsed_data \<leftarrow> py_get d ''parsed'' (JObj []);
     info \<leftarrow> py_get parsed_data ''info'' (JObj []);
     token_amount \<leftarrow> py_get info ''tokenAmount'' (JObj []);
     amount_field \<leftarrow> py_get token_amount ''amount'' (JInt 0);
     py_float L amount_field }"

fun fallback_accounts :: "pylib \<Rightarrow> json list \<Rightarrow> holder list option" where
  \<comment> \<open>The loop over \<^verbatim>\<open>result\<close> that fills \<^verbatim>\<open>holders_data\<close>.\<close>
  "fallback_accounts L [] = Some []"
| "fallback_accounts L (account # accounts) = do {
     amount \<leftarrow> token_amount_of L account;
     if float_gt0 amount then do {
       addr \<leftarrow> py_get account ''pubkey'' (JStr '''');
       holders_data \<leftarrow> fallback_accounts L accounts;
       Some (\<lparr>address = addr, amount = amount\<rparr> # holders_data) }
     else fallback_accounts L accounts }"

definition fallback_body :: "pylib \<Rightarrow> response \<Rightarrow> pyfloat holders_info option" where
  "fallback_body L resp =
     (case resp of
        Raises \<Rightarrow> None
      | Response status body \<Rightarrow>
          if status = 200 then do {
            data \<leftarrow> body;
            result \<leftarrow> py_get data ''result'' (JArr []);
            accounts \<leftarrow> py_iter result;
            holders_data \<leftarrow> fallback_accounts L accounts;
            holders_summary L holders_data }
          else None)"

definition get_holders_info_fallback ::
  "pylib \<Rightarrow> network \<Rightarrow> string \<Rightarrow> request list \<Rightarrow>
     pyfloat holders_info awaited \<times> request list" where
  "get_holders_info_fallback L net mint sent =
     (let (outcome, sent) = http net (SolanaGetProgramAccounts mint) sent in
      (case outcome of
         Cancelled \<Rightarrow> Cancelled_error
       | Done resp \<Rightarrow>
           Returned (case fallback_body L resp of Some h \<Rightarrow> h | None \<Rightarrow> holders_zero),
       sent))"

definition get_holders_info_helius ::
  "pylib \<Rightarrow> network \<Rightarrow> string \<Rightarrow> request list \<Rightarrow>
     pyfloat holders_info awaited \<times> request list" where
  \<comment> \<open>When its own \<^verbatim>\<open>try\<close> returns nothing, the method ends with
      \<^verbatim>\<open>return await self.get_holders_info_fallback(mint)\<close>.\<close>
  "get_holders_info_helius L net mint sent =
     (let (outcome, sent) = http net (HeliusGetTokenAccounts mint) sent in
      case outcome of
        Cancelled \<Rightarrow> (Cancelled_error, sent)
      | Done resp \<Rightarrow>
          (case helius_body L resp of
             Some h \<Rightarrow> (Returned h, sent)
           | None \<Rightarrow> get_holders_info_fallback L net mint sent))"

definition solscan_holders_data :: "json \<Rightarrow> json option" where
  \<comment> \<open>The \<^verbatim>\<open>isinstance\<close> chain; \<open>None\<close> is its \<^verbatim>\<open>else\<close> branch, which returns the zero dict.\<close>
  "solscan_holders_data data =
     (case data of
        JObj kvs \<Rightarrow> map_of kvs ''data''
      | JArr xs \<Rightarrow> Some data
      | _ \<Rightarrow> None)"

definition solscan_amount :: "pylib \<Rightarrow> json \<Rightarrow> (pyfloat \<times> json) option" where
  \<comment> \<open>An entry with its sort key \<^verbatim>\<open>float(x.get("amount", 0))\<close>.\<close>
  "solscan_amount L x = do {
     amount_field \<leftarrow> py_get x ''amount'' (JInt 0);
     a \<leftarrow> py_float L amount_field;
     Some (a, x) }"

definition solscan_body :: "pylib \<Rightarrow> response \<Rightarrow> pyfloat holders_info option" where
  \<comment> \<open>The total is the sum over the entries in the order of the listing; the top ten are
      taken from the sorted copy.\<close>
  "solscan_body L resp =
     (case resp of
        Raises \<Rightarrow> None
      | Response status body \<Rightarrow>
          if status = 200 then do {
            data \<leftarrow> body;
            holders_data \<leftarrow> solscan_holders_data data;
            if truthy holders_data then do {
              entries \<leftarrow> py_iter holders_data;
              let total_holders = length entries in
              if total_holders > 0 then do {
                keyed \<leftarrow> those (map (solscan_amount L) entries);
                let sorted_holders = sort_reverse fst keyed;
                    top_10 = take 10 sorted_holders;
                    total_supply = py_sum L (map fst keyed);
                    top_10_amount = py_sum L (map fst top_10)
                in do {
                  top_10_share \<leftarrow>
                    (if float_gt0 total_supply then do {
                       quotient \<leftarrow> py_div L top_10_amount total_supply;
                       Some (float_round2 L (float_mul L quotient (Finite 100))) }
                     else Some 0);
                  Some \<lparr>hi_holders = int total_holders, hi_top_10_share = top_10_share\<rparr> } }
              else Some \<lparr>hi_holders = int total_holders, hi_top_10_share = 0\<rparr> }
            else None }
          else None)"

definition get_holders_info_solscan_alternative ::
  "pylib \<Rightarrow> network \<Rightarrow> string \<Rightarrow> request list \<Rightarrow>
     pyfloat holders_info awaited \<times> request list" where
  "get_holders_info_solscan_alternative L net mint sent =
     (let (outcome, sent) = http net (SolscanTokenHolders mint) sent in
      (case outcome of
         Cancelled \<Rightarrow> Cancelled_error
       | Done resp \<Rightarrow>
           Returned (case solscan_body L resp of Some h \<Rightarrow> h | None \<Rightarrow> holders_zero),
       sent))"

definition get_holders_info ::
  "pylib \<Rightarrow> network \<Rightarrow> string \<Rightarrow> request list \<Rightarrow>
     pyfloat holders_info awaited \<times> request list" where
  \<comment> \<open>A strategy that raises the cancellation ends the method, which raises it in turn.\<close>
  "get_holders_info L net mint sent =
     (case get_holders_info_helius L net mint sent of
        (Cancelled_error, sent) \<Rightarrow> (Cancelled_error, sent)
      | (Returned holders_info, sent) \<Rightarrow>
          (case (if hi_holders holders_info = 0
                 then get_holders_info_solscan_alternative L net mint sent
                 else (Returned holders_info, sent)) of
             (Cancelled_error, sent) \<Rightarrow> (Cancelled_error, sent)
           | (Returned holders_info, sent) \<Rightarrow>
               (if hi_holders holders_info = 0
                then get_holders_info_fallback L net mint sent
                else (Returned holders_info, sent))))"

section \<open>The risk assessor\<close>

definition rug_pull_body :: "response \<Rightarrow> bool option" where
  "rug_pull_body resp =
     (case resp of
        Raises \<Rightarrow> None
      | Response status body \<Rightarrow>
          if status = 200 then do {
            data \<leftarrow> body;
            result \<leftarrow> py_get data ''result'' (JObj []);
            val \<leftarrow> py_get result ''value'' (JObj []);
            if truthy val then do {
              d \<leftarrow> py_get val ''data'' JNull;
              if truthy d then do {
                parsed_data \<leftarrow> py_get d ''parsed'' (JObj []);
                info \<leftarrow> py_get parsed_data ''info'' (JObj []);
                freeze_authority \<leftarrow> py_get info ''freezeAuthority'' JNull;
                mint_authority \<leftarrow> py_get info ''mintAuthority'' JNull;
                let has_freeze_authority = (freeze_authority \<noteq> JNull);
                    has_mint_authority = (mint_authority \<noteq> JNull)
                in Some (has_freeze_authority \<or> has_mint_authority) }
              else None }
            else None }
          else None)"

definition check_rug_pull_risk ::
  "network \<Rightarrow> string \<Rightarrow> request list \<Rightarrow> bool awaited \<times> request list" where
  "check_rug_pull_risk net mint sent =
     (let (outcome, sent) = http net (SolanaGetAccountInfo mint) sent in
      (case outcome of
         Cancelled \<Rightarrow> Cancelled_error
       | Done resp \<Rightarrow> Returned (case rug_pull_body resp of Some risk \<Rightarrow> risk | None \<Rightarrow> False),
       sent))"

section \<open>The market cap\<close>

definition calculate_market_cap :: "real \<Rightarrow> int \<Rightarrow> int \<Rightarrow> real" where
  "calculate_market_cap price_usd supply decimals =
     (if supply = 0 \<or> decimals < 0 then 0
      else let adjusted_supply = of_int supply / of_int (10 ^ nat decimals)
           in price_usd * adjusted_supply)"

definition market_cap_raises :: "pylib \<Rightarrow> int \<Rightarrow> int \<Rightarrow> bool" where
  \<comment> \<open>Where \<^verbatim>\<open>calculate_market_cap\<close> raises: the true division \<^verbatim>\<open>supply / (10 ** decimals)\<close> of
      two ints raises \<^verbatim>\<open>OverflowError\<close> when the quotient is beyond the doubles.\<close>
  "market_cap_raises L supply decimals =
     (\<not> (supply = 0 \<or> decimals < 0) \<and> int_true_div L supply (10 ^ nat decimals) = None)"

section \<open>The scoring engine\<close>

text \<open>
  \<^verbatim>\<open>calculate_score\<close> is one method of eight consecutive blocks, each adding to \<^verbatim>\<open>score\<close>
  and appending one line to \<^verbatim>\<open>explanations\<close>. Each block is a function on the pair of the
  two variables. The explanation lines are kept without their leading emoji and with
  their accents dropped.
\<close>

type_synonym tally = "int \<times> string list"

definition score_pools :: "'a analysis_data_scheme \<Rightarrow> tally \<Rightarrow> tally" where
  "score_pools data = (\<lambda>(score, explanations).
     let pools = dict_get (ad_pools data) 0 in
     if pools \<ge> 5 then
       (score + 2, explanations @ [''**Pools** : +2/2 pts (5+ pools = excellente liquidite)''])
     else if pools \<ge> 2 then
       (score + 1, explanations @ [''**Pools** : +1/2 pts (2-4 pools = bonne liquidite)''])
     else
       (score, explanations @ [''**Pools** : +0/2 pts (< 2 pools = liquidite faible)'']))"

definition score_volume :: "'a analysis_data_scheme \<Rightarrow> tally \<Rightarrow> tally" where
  "score_volume data = (\<lambda>(score, explanations).
     let volume = dict_get (ad_volume_24h data) 0 in
     if volume \<ge> 1000000 then
       (score + 3, explanations @ [''**Volume 24h** : +3/3 pts (1M$+ = tres actif)''])
     else if volume \<ge> 100000 then
       (score + 2, explanations @ [''**Volume 24h** : +2/3 pts (100K$+ = actif)''])
     else if volume \<ge> 10000 then
       (score + 1, explanations @ [''**Volume 24h** : +1/3 pts (10K$+ = peu actif)''])
     else
       (score, explanations @ [''**Volume 24h** : +0/3 pts (< 10K$ = tres peu actif)'']))"

definition score_liquidity :: "'a analysis_data_scheme \<Rightarrow> tally \<Rightarrow> tally" where
  "score_liquidity data = (\<lambda>(score, explanations).
     let liquidity = dict_get (ad_liquidity data) 0 in
     if liquidity \<ge> 1000000 then
       (score + 3, explanations @ [''**Liquidite** : +3/3 pts (1M$+ = excellente)''])
     else if liquidity \<ge> 100000 then
       (score + 2, explanations @ [''**Liquidite** : +2/3 pts (100K$+ = bonne)''])
     else if liquidity \<ge> 10000 then
       (score + 1, explanations @ [''**Liquidite** : +1/3 pts (10K$+ = faible)''])
     else
       (score, explanations @ [''**Liquidite** : +0/3 pts (< 10K$ = tres faible)'']))"

definition score_stability :: "'a analysis_data_scheme \<Rightarrow> tally \<Rightarrow> tally" where
  "score_stability data = (\<lambda>(score, explanations).
     let price_change = \<bar>dict_get (ad_price_change_24h data) 0\<bar> in
     if price_change \<le> 5 then
       (score + 2, explanations @ [''**Stabilite** : +2/2 pts (+-5% = tres stable)''])
     else if price_change \<le> 15 then
       (score + 1, explanations @ [''**Stabilite** : +1/2 pts (+-15% = moderement stable)''])
     else
       (score, explanations @ [''**Stabilite** : +0/2 pts (>15% = tres volatil)'']))"

definition score_market_cap :: "'a analysis_data_scheme \<Rightarrow> tally \<Rightarrow> tally" where
  "score_market_cap data = (\<lambda>(score, explanations).
     let market_cap = dict_get (ad_market_cap data) 0 in
     if market_cap \<ge> 10000000 then
       (score + 3, explanations @ [''**Market Cap** : +3/3 pts (10M$+ = large cap)''])
     else if market_cap \<ge> 1000000 then
       (score + 2, explanations @ [''**Market Cap** : +2/3 pts (1M$+ = mid cap)''])
     else if market_cap \<ge> 100000 then
       (score + 1, explanations @ [''**Market Cap** : +1/3 pts (100K$+ = small cap)''])
     else
       (score, explanations @ [''**Market Cap** : +0/3 pts (< 100K$ = micro cap)'']))"

definition score_holders :: "'a analysis_data_scheme \<Rightarrow> tally \<Rightarrow> tally" where
  "score_holders data = (\<lambda>(score, explanations).
     let holders = dict_get (ad_holders data) 0 in
     if holders \<ge> 10000 then
       (score + 3, explanations @ [''**Holders** : +3/3 pts (10K+ = tres adopte)''])
     else if holders \<ge> 1000 then
       (score + 2, explanations @ [''**Holders** : +2/3 pts (1K+ = bien adopte)''])
     else if holders \<ge> 100 then
       (score + 1, explanations @ [''**Holders** : +1/3 pts (100+ = peu adopte)''])
     else
       (score, explanations @ [''**Holders** : +0/3 pts (< 100 = tres peu adopte)'']))"

definition score_distribution :: "'a analysis_data_scheme \<Rightarrow> tally \<Rightarrow> tally" where
  "score_distribution data = (\<lambda>(score, explanations).
     let top_10_share = dict_get (ad_top_10_share data) 100 in
     if top_10_share \<le> 20 then
       (score + 2, explanations @ [''**Distribution** : +2/2 pts (<=20% = tres decentralise)''])
     else if top_10_share \<le> 50 then
       (score + 1, explanations @ [''**Distribution** : +1/2 pts (<=50% = moyennement decentralise)''])
     else
       (score, explanations @ [''**Distribution** : +0/2 pts (>50% = tres centralise)'']))"

definition score_security :: "'a analysis_data_scheme \<Rightarrow> tally \<Rightarrow> tally" where
  "score_security data = (\<lambda>(score, explanations).
     if \<not> dict_get (ad_rug_pull_risk data) True then
       (score + 2, explanations @ [''**Securite** : +2/2 pts (autorites revoquees = securise)''])
     else
       (score, explanations @ [''**Securite** : +0/2 pts (autorites actives = risque eleve)'']))"

definition score_blocks :: "'a analysis_data_scheme \<Rightarrow> tally" where
  \<comment> \<open>The two variables when the last block is done, before \<^verbatim>\<open>min(score, 20)\<close>.\<close>
  "score_blocks data =
     score_security data (score_distribution data (score_holders data (score_market_cap data
       (score_stability data (score_liquidity data (score_volume data (score_pools data
         (0, []))))))))"

definition calculate_score :: "'a analysis_data_scheme \<Rightarrow> int \<times> string list" where
  "calculate_score data =
     (let (score, explanations) = score_blocks data in (min score 20, explanations))"

section \<open>The aggregator\<close>

text \<open>
  \<^verbatim>\<open>analyze_token\<close> returns the dict \<^verbatim>\<open>{"error": "Mint address invalide"}\<close>, the scored dict,
  or, from the handler that ends its \<^verbatim>\<open>try\<close>, a dict whose \<^verbatim>\<open>error\<close> is
  \<^verbatim>\<open>"Erreur lors de l'analyse: "\<close> followed by the text of the exception, which is not kept
  here. The four sources are awaited together by
  \<^verbatim>\<open>asyncio.gather(..., return_exceptions=True)\<close>, which leaves in each of its four slots the
  dict the source returned or the exception it raised; the model runs the sources in the
  order in which they are passed to it. The risk assessor is awaited on its own: its
  cancellation is not caught by the handler and leaves \<^verbatim>\<open>analyze_token\<close>.

  The lines after the two awaits read every slot with \<^verbatim>\<open>.get\<close>, which an exception object
  does not have: the \<^verbatim>\<open>AttributeError\<close> goes to the handler. So does the \<^verbatim>\<open>OverflowError\<close> of
  \<^verbatim>\<open>calculate_market_cap\<close>. Nothing else raises in these lines.

  The scored dict is a record over the real numbers. When a source has delivered an
  infinity or a NaN the dict that Python builds has no such record, and the model says
  so with \<open>Unrepresented\<close>.
\<close>

datatype analysis =
    Error string
  | Analysis_error
  | Analysis analysis_result
  | Cancelled_analysis
  | Unrepresented

definition compile_analysis ::
  "string \<Rightarrow> real dex_data \<Rightarrow> metadata \<Rightarrow> supply_info \<Rightarrow> real holders_info \<Rightarrow> bool
     \<Rightarrow> analysis_result" where
  \<comment> \<open>The lines of \<^verbatim>\<open>analyze_token\<close> from the merge of the supply to the scored dict.\<close>
  "compile_analysis mint dex_data metadata supply_info holders_info rug_pull_risk =
     (let supply = py_or (si_supply supply_info) (md_supply metadata);
          decimals = py_or (si_decimals supply_info) (md_decimals metadata);
          market_cap = calculate_market_cap (dex_price_usd dex_data) supply decimals;
          analysis_data =
            \<lparr>ad_mint = mint,
             ad_name = md_name metadata,
             ad_symbol = md_symbol metadata,
             ad_created_at = md_created_at metadata,
             ad_pools = Some (dex_pools dex_data),
             ad_liquidity = Some (dex_liquidity dex_data),
             ad_volume_24h = Some (dex_volume_24h dex_data),
             ad_price_usd = dex_price_usd dex_data,
             ad_price_change_24h = Some (dex_price_change_24h dex_data),
             ad_market_cap = Some market_cap,
             ad_supply = supply,
             ad_decimals = decimals,
             ad_holders = Some (hi_holders holders_info),
             ad_top_10_share = Some (hi_top_10_share holders_info),
             ad_rug_pull_risk = Some rug_pull_risk\<rparr>;
          (score, explanations) = calculate_score analysis_data
      in analysis_data.extend analysis_data
           \<lparr>ad_score = score, ad_explanations = explanations\<rparr>)"

fun real_of_float :: "pyfloat \<Rightarrow> real option" where
  "real_of_float (Finite r) = Some r"
| "real_of_float _ = None"

definition dex_reals :: "pyfloat dex_data \<Rightarrow> real dex_data option" where
  "dex_reals d = do {
     price_usd \<leftarrow> real_of_float (dex_price_usd d);
     price_change_24h \<leftarrow> real_of_float (dex_price_change_24h d);
     volume_24h \<leftarrow> real_of_float (dex_volume_24h d);
     liquidity \<leftarrow> real_of_float (dex_liquidity d);
     Some \<lparr>dex_pools = dex_pools d, dex_price_usd = price_usd,
           dex_price_change_24h = price_change_24h, dex_volume_24h = volume_24h,
           dex_liquidity = liquidity\<rparr> }"

definition holders_reals :: "pyfloat holders_info \<Rightarrow> real holders_info option" where
  "holders_reals h = do {
     top_10_share \<leftarrow> real_of_float (hi_top_10_share h);
     Some \<lparr>hi_holders = hi_holders h, hi_top_10_share = top_10_share\<rparr> }"

definition analyze_gathered ::
  "pylib \<Rightarrow> string \<Rightarrow> pyfloat dex_data awaited \<Rightarrow> metadata awaited \<Rightarrow> supply_info awaited
     \<Rightarrow> pyfloat holders_info awaited \<Rightarrow> bool \<Rightarrow> analysis" where
  \<comment> \<open>The lines of the \<^verbatim>\<open>try\<close> after the two awaits, and its handler.\<close>
  "analyze_gathered L mint dex_slot metadata_slot supply_slot holders_slot rug_pull_risk =
     (case (dex_slot, metadata_slot, supply_slot, holders_slot) of
        (Returned dex_data, Returned metadata, Returned supply_info, Returned holders_info) \<Rightarrow>
          if market_cap_raises L (py_or (si_supply supply_info) (md_supply metadata))
               (py_or (si_decimals supply_info) (md_decimals metadata))
          then Analysis_error
          else (case (dex_reals dex_data, holders_reals holders_info) of
                  (Some d, Some h) \<Rightarrow>
                    Analysis (compile_analysis mint d metadata supply_info h rug_pull_risk)
                | _ \<Rightarrow> Unrepresented)
      | _ \<Rightarrow> Analysis_error)"

definition analyze_token ::
  "pylib \<Rightarrow> network \<Rightarrow> string \<Rightarrow> request list \<Rightarrow> analysis \<times> request list" where
  "analyze_token L net mint sent =
     (if \<not> is_valid_mint L mint then (Error ''Mint address invalide'', sent)
      else
        let (dex_slot, sent) = get_dexscreener_data L net mint sent;
            (metadata_slot, sent) = get_token_metadata L net mint sent;
            (supply_slot, sent) = get_token_supply_info L net mint sent;
            (holders_slot, sent) = get_holders_info L net mint sent;
            (rug_pull, sent) = check_rug_pull_risk net mint sent
        in (case rug_pull of
              Cancelled_error \<Rightarrow> Cancelled_analysis
            | Returned rug_pull_risk \<Rightarrow>
                analyze_gathered L mint dex_slot metadata_slot supply_slot holders_slot
                  rug_pull_risk,
            sent))"

section \<open>A library to run the model on\<close>

text \<open>
  One instance of the library parameter, for running the model on concrete inputs: it
  parses the strings of decimal digits as Python does and rejects every other string,
  and it decodes base-58 over the Bitcoin alphabet, each leading \<^verbatim>\<open>1\<close> giving one zero
  byte. Its arithmetic is exact: an operation on finite floats gives the real number that
  Python's operation rounds to a double, so that the two agree wherever that number is a
  double itself, as it is at every step on the concrete inputs below; it never
  overflows, and it gives NaN when an operand is not finite.
\<close>

fun position_of :: "'a \<Rightarrow> 'a list \<Rightarrow> nat option" where
  "position_of c [] = None"
| "position_of c (x # xs) = (if c = x then Some 0 else map_option Suc (position_of c xs))"

definition digit_of :: "char \<Rightarrow> nat option" where
  "digit_of c = position_of c ''0123456789''"

fun number_of :: "nat \<Rightarrow> nat \<Rightarrow> string \<Rightarrow> (char \<Rightarrow> nat option) \<Rightarrow> nat option" where
  \<comment> \<open>The number a string of digits writes in the given base, most significant first.\<close>
  "number_of base acc [] digit = Some acc"
| "number_of base acc (c # cs) digit =
     (case digit c of None \<Rightarrow> None | Some d \<Rightarrow> number_of base (acc * base + d) cs digit)"

definition plain_number :: "string \<Rightarrow> nat option" where
  "plain_number s = (if s = [] then None else number_of 10 0 s digit_of)"

definition b58_alphabet :: string where
  "b58_alphabet = ''123456789ABCDEFGHJKLMNPQRSTUVWXYZabcdefghijkmnopqrstuvwxyz''"

fun bytes_of :: "nat \<Rightarrow> nat \<Rightarrow> nat list" where
  \<comment> \<open>The big-endian bytes of a number below \<open>256 ^ fuel\<close>.\<close>
  "bytes_of 0 n = []"
| "bytes_of (Suc fuel) n = (if n = 0 then [] else bytes_of fuel (n div 256) @ [n mod 256])"

definition plain_b58decode :: "string \<Rightarrow> nat list option" where
  "plain_b58decode s =
     (let zeros = takeWhile (\<lambda>c. c = CHR ''1'') s;
          digits = dropWhile (\<lambda>c. c = CHR ''1'') s
      in map_option (\<lambda>n. replicate (length zeros) 0 @ bytes_of (length digits) n)
           (number_of 58 0 digits (\<lambda>c. position_of c b58_alphabet)))"

definition exact_op :: "(real \<Rightarrow> real \<Rightarrow> real) \<Rightarrow> pyfloat \<Rightarrow> pyfloat \<Rightarrow> pyfloat" where
  "exact_op f x y = (case (x, y) of (Finite a, Finite b) \<Rightarrow> Finite (f a b) | _ \<Rightarrow> NaN)"

definition half_even_2 :: "real \<Rightarrow> real" where
  \<comment> \<open>The nearest multiple of 0.01, a tie going to the even one.\<close>
  "half_even_2 x =
     (let y = x * 100; n = \<lfloor>y\<rfloor>; d = y - of_int n in
      of_int (if d < 1 / 2 then n else if 1 / 2 < d then n + 1 else if even n then n else n + 1)
        / 100)"

definition plain_lib :: pylib where
  "plain_lib =
     \<lparr>float_of_str = (\<lambda>s. map_option (\<lambda>n. Finite (of_nat n)) (plain_number s)),
      float_of_int = (\<lambda>i. Some (Finite (of_int i))),
      int_of_str = (\<lambda>s. map_option int (plain_number s)),
      float_sum = (\<lambda>xs. foldl (exact_op (\<lambda>a b. a + b)) 0 xs),
      float_div = exact_op (\<lambda>a b. a / b),
      float_mul = exact_op (\<lambda>a b. a * b),
      float_round2 = (\<lambda>x. case x of Finite r \<Rightarrow> Finite (half_even_2 r) | _ \<Rightarrow> x),
      int_true_div = (\<lambda>i j. Some (Finite (of_int i / of_int j))),
      b58decode = plain_b58decode\<rparr>"

subsection \<open>The rubric as the specification tabulates it\<close>

text \<open>
  One step function per row of the specification's table, written from the table and
  not from the code, and the table's column of maxima.
\<close>

definition rubric_pools :: "int \<Rightarrow> int" where
  "rubric_pools n = (if 5 \<le> n then 2 else if 2 \<le> n then 1 else 0)"

definition rubric_usd :: "real \<Rightarrow> int" where
  \<comment> \<open>The rows of the 24h volume and of the liquidity.\<close>
  "rubric_usd x = (if 1000000 \<le> x then 3 else if 100000 \<le> x then 2 else if 10000 \<le> x then 1 else 0)"

definition rubric_stability :: "real \<Rightarrow> int" where
  "rubric_stability change = (if \<bar>change\<bar> \<le> 5 then 2 else if \<bar>change\<bar> \<le> 15 then 1 else 0)"

definition rubric_market_cap :: "real \<Rightarrow> int" where
  "rubric_market_cap x =
     (if 10000000 \<le> x then 3 else if 1000000 \<le> x then 2 else if 100000 \<le> x then 1 else 0)"

definition rubric_holders :: "int \<Rightarrow> int" where
  "rubric_holders n = (if 10000 \<le> n then 3 else if 1000 \<le> n then 2 else if 100 \<le> n then 1 else 0)"

definition rubric_distribution :: "real \<Rightarrow> int" where
  "rubric_distribution share = (if share \<le> 20 then 2 else if share \<le> 50 then 1 else 0)"

definition rubric_security :: "bool \<Rightarrow> int" where
  "rubric_security rug_pull_risk = (if rug_pull_risk then 0 else 2)"

definition rubric_max :: "int list" where
  "rubric_max = [2, 3, 3, 2, 3, 3, 2, 2]"

subsection \<open>The authorities of the parsed ledger account\<close>

fun json_path :: "json \<Rightarrow> string list \<Rightarrow> json option" where
  \<comment> \<open>The value found by descending through nested objects along the keys.\<close>
  "json_path j [] = Some j"
| "json_path (JObj kvs) (k # ks) = (case map_of kvs k of None \<Rightarrow> None | Some v \<Rightarrow> json_path v ks)"
| "json_path _ (k # ks) = None"

definition authority_present :: "json \<Rightarrow> string \<Rightarrow> bool" where
  \<comment> \<open>The body of the account-info response holds a parsed account whose authority field
      is there and is not null.\<close>
  "authority_present body field =
     (case json_path body [''result'', ''value'', ''data'', ''parsed'', ''info'', field] of
        None \<Rightarrow> False
      | Some v \<Rightarrow> v \<noteq> JNull)"

subsection \<open>The share of the ten largest holders\<close>

definition sort_desc :: "pyfloat list \<Rightarrow> pyfloat list" where
  \<comment> \<open>The balances in descending order.\<close>
  "sort_desc balances = rev (sort_key float_rank balances)"

definition top10_share_pct :: "pylib \<Rightarrow> pyfloat list \<Rightarrow> pyfloat" where
  \<comment> \<open>The balances sorted in descending order, the first ten summed, times 100 over the sum
      of all of them, rounded to two decimals; 0 when the sum of all of them is 0. The sums,
      the quotient, its product by 100 and the rounding are the library's, in this order.\<close>
  "top10_share_pct L balances =
     (let total = py_sum L balances;
          top10 = py_sum L (take 10 (sort_desc balances))
      in if total = 0 then 0
         else float_round2 L (float_mul L (float_div L top10 total) (Finite 100)))"

section \<open>Concrete inputs\<close>

definition system_mint :: string where
  \<comment> \<open>The address of the ledger's system program: 32 characters, valid base-58.\<close>
  "system_mint = ''11111111111111111111111111111111''"

definition net_down :: network where
  \<comment> \<open>Every call raises an exception that the sources catch.\<close>
  "net_down = (\<lambda>i req. Done Raises)"

definition account_info :: "json \<Rightarrow> json \<Rightarrow> json" where
  \<comment> \<open>The body of an account-info response for a parsed mint account.\<close>
  "account_info freeze_authority mint_authority =
     JObj [(''result'', JObj [(''value'', JObj [(''data'', JObj [(''parsed'',
       JObj [(''info'', JObj [(''decimals'', JInt 6),
                              (''freezeAuthority'', freeze_authority),
                              (''mintAuthority'', mint_authority)])])])])])]"

definition net_authorities :: network where
  \<comment> \<open>The mint authority is still set.\<close>
  "net_authorities =
     (\<lambda>i req. Done (Response 200 (Some (account_info JNull (JStr ''issuer'')))))"

definition net_revoked :: network where
  \<comment> \<open>Both authorities are null.\<close>
  "net_revoked = (\<lambda>i req. Done (Response 200 (Some (account_info JNull JNull))))"

definition helius_account :: "int \<Rightarrow> json" where
  "helius_account n = JObj [(''address'', JStr ''holder''), (''amount'', JInt n)]"

definition helius_response :: json where
  \<comment> \<open>Twelve token accounts, one of them empty: eleven holders of 16 units in all, of which
      the ten largest hold 15.\<close>
  "helius_response =
     JObj [(''result'', JObj [(''token_accounts'',
       JArr (map helius_account [1, 6, 0, 1, 1, 1, 1, 1, 1, 1, 1, 1]))])]"

definition helius_holders :: "holder list" where
  "helius_holders =
     map (\<lambda>n. \<lparr>address = JStr ''holder'', amount = Finite (of_int n)\<rparr>)
       [1, 6, 1, 1, 1, 1, 1, 1, 1, 1, 1]"

definition helius_empty :: json where
  \<comment> \<open>The indexer knows no token account of the mint.\<close>
  "helius_empty = JObj [(''result'', JObj [(''token_accounts'', JArr [])])]"

definition program_account :: "string \<Rightarrow> json" where
  \<comment> \<open>A parsed program account; the ledger gives the amount as a string of digits.\<close>
  "program_account digits =
     JObj [(''pubkey'', JStr ''holder''),
           (''account'', JObj [(''data'', JObj [(''parsed'', JObj [(''info'',
              JObj [(''tokenAmount'', JObj [(''amount'', JStr digits)])])])])])]"

definition ledger_response :: json where
  "ledger_response = JObj [(''result'', JArr [program_account ''70'', program_account ''30''])]"

definition ledger_holders :: "holder list" where
  "ledger_holders = [\<lparr>address = JStr ''holder'', amount = Finite 70\<rparr>,
                     \<lparr>address = JStr ''holder'', amount = Finite 30\<rparr>]"

definition solscan_entries :: "json list" where
  "solscan_entries = [JObj [(''amount'', JInt 30)], JObj [(''amount'', JInt 0)],
                      JObj [(''amount'', JInt 70)]]"

definition solscan_response :: json where
  "solscan_response = JObj [(''data'', JArr solscan_entries)]"

definition net_holders :: "json \<Rightarrow> network" where
  \<comment> \<open>The three holder sources answer; the indexer answers with the given body.\<close>
  "net_holders indexer_body =
     (\<lambda>i req. case req of
        HeliusGetTokenAccounts m \<Rightarrow> Done (Response 200 (Some indexer_body))
      | SolanaGetProgramAccounts m \<Rightarrow> Done (Response 200 (Some ledger_response))
      | SolscanTokenHolders m \<Rightarrow> Done (Response 200 (Some solscan_response))
      | _ \<Rightarrow> Done Raises)"

definition net_market_cancelled :: network where
  \<comment> \<open>The call of the market source is cancelled; the holder sources answer and every
      other call raises an exception that its source catches.\<close>
  "net_market_cancelled =
     (\<lambda>i req. case req of
        DexscreenerTokens m \<Rightarrow> Cancelled
      | _ \<Rightarrow> net_holders helius_response i req)"

section \<open>Properties of the scoring engine\<close>

lemma score_pools_fst:
  "fst (score_pools data t) = fst t + rubric_pools (dict_get (ad_pools data) 0)"
  by (cases t) (simp add: score_pools_def rubric_pools_def Let_def)

lemma score_volume_fst:
  "fst (score_volume data t) = fst t + rubric_usd (dict_get (ad_volume_24h data) 0)"
  by (cases t) (simp add: score_volume_def rubric_usd_def Let_def)

lemma score_liquidity_fst:
  "fst (score_liquidity data t) = fst t + rubric_usd (dict_get (ad_liquidity data) 0)"
  by (cases t) (simp add: score_liquidity_def rubric_usd_def Let_def)

lemma score_stability_fst:
  "fst (score_stability data t) = fst t + rubric_stability (dict_get (ad_price_change_24h data) 0)"
  by (cases t) (simp add: score_stability_def rubric_stability_def Let_def)

lemma score_market_cap_fst:
  "fst (score_market_cap data t) = fst t + rubric_market_cap (dict_get (ad_market_cap data) 0)"
  by (cases t) (simp add: score_market_cap_def rubric_market_cap_def Let_def)

lemma score_holders_fst:
  "fst (score_holders data t) = fst t + rubric_holders (dict_get (ad_holders data) 0)"
  by (cases t) (simp add: score_holders_def rubric_holders_def Let_def)

lemma score_distribution_fst:
  "fst (score_distribution data t) = fst t + rubric_distribution (dict_get (ad_top_10_share data) 100)"
  by (cases t) (simp add: score_distribution_def rubric_distribution_def Let_def)

lemma score_security_fst:
  "fst (score_security data t) = fst t + rubric_security (dict_get (ad_rug_pull_risk data) True)"
  by (cases t) (simp add: score_security_def rubric_security_def)

lemmas score_block_fst =
  score_pools_fst score_volume_fst score_liquidity_fst score_stability_fst
  score_market_cap_fst score_holders_fst score_distribution_fst score_security_fst

lemma score_blocks_fst:
  "fst (score_blocks data) =
     rubric_pools (dict_get (ad_pools data) 0)
     + rubric_usd (dict_get (ad_volume_24h data) 0)
     + rubric_usd (dict_get (ad_liquidity data) 0)
     + rubric_stability (dict_get (ad_price_change_24h data) 0)
     + rubric_market_cap (dict_get (ad_market_cap data) 0)
     + rubric_holders (dict_get (ad_holders data) 0)
     + rubric_distribution (dict_get (ad_top_10_share data) 100)
     + rubric_security (dict_get (ad_rug_pull_risk data) True)"
  by (simp add: score_blocks_def score_block_fst)

lemma rubric_pools_range: "0 \<le> rubric_pools n \<and> rubric_pools n \<le> 2"
  by (simp add: rubric_pools_def)

lemma rubric_usd_range: "0 \<le> rubric_usd x \<and> rubric_usd x \<le> 3"
  by (simp add: rubric_usd_def)

lemma rubric_stability_range: "0 \<le> rubric_stability x \<and> rubric_stability x \<le> 2"
  by (simp add: rubric_stability_def)

lemma rubric_market_cap_range: "0 \<le> rubric_market_cap x \<and> rubric_market_cap x \<le> 3"
  by (simp add: rubric_market_cap_def)

lemma rubric_holders_range: "0 \<le> rubric_holders n \<and> rubric_holders n \<le> 3"
  by (simp add: rubric_holders_def)

lemma rubric_distribution_range: "0 \<le> rubric_distribution x \<and> rubric_distribution x \<le> 2"
  by (simp add: rubric_distribution_def)

lemma rubric_security_range: "0 \<le> rubric_security b \<and> rubric_security b \<le> 2"
  by (simp add: rubric_security_def)

lemma score_blocks_range: "0 \<le> fst (score_blocks data) \<and> fst (score_blocks data) \<le> 20"
proof -
  note r =
    rubric_pools_range [of "dict_get (ad_pools data) 0"]
    rubric_usd_range [of "dict_get (ad_volume_24h data) 0"]
    rubric_usd_range [of "dict_get (ad_liquidity data) 0"]
    rubric_stability_range [of "dict_get (ad_price_change_24h data) 0"]
    rubric_market_cap_range [of "dict_get (ad_market_cap data) 0"]
    rubric_holders_range [of "dict_get (ad_holders data) 0"]
    rubric_distribution_range [of "dict_get (ad_top_10_share data) 100"]
    rubric_security_range [of "dict_get (ad_rug_pull_risk data) True"]
  show ?thesis
    unfolding score_blocks_fst using r by linarith
qed

lemma calculate_score_fst: "fst (calculate_score data) = min (fst (score_blocks data)) 20"
  by (simp add: calculate_score_def split: prod.split)

text \<open>
  C6. Whatever record the scoring engine is given, the score it returns lies between 0 and
  20; the maxima of the eight rows of the rubric add up to exactly 20 and every block stays
  within its row's maximum, so the accumulated score is never above 20 and the final
  \<^verbatim>\<open>min(score, 20)\<close> returns it unchanged.
\<close>

theorem calculate_score_range:
  "0 \<le> fst (calculate_score data) \<and> fst (calculate_score data) \<le> 20
   \<and> fst (calculate_score data) = fst (score_blocks data)
   \<and> sum_list rubric_max = 20"
  using score_blocks_range [of data]
  by (simp add: calculate_score_fst rubric_max_def)

text \<open>
  C5. The points of each category are the step function of the specification's table, with
  the table's inclusive boundaries: the score is the sum of the eight rows' functions at
  the record's fields (an absent field read at its default). A 24h volume of 999,999.99
  is in the 2-point band and 1,000,000 in the 3-point band; a liquidity of 10,000 is in
  the 1-point band and 9,999.99 in the 0-point band.
\<close>

theorem calculate_score_rubric:
  "fst (calculate_score data) =
     rubric_pools (dict_get (ad_pools data) 0)
     + rubric_usd (dict_get (ad_volume_24h data) 0)
     + rubric_usd (dict_get (ad_liquidity data) 0)
     + rubric_stability (dict_get (ad_price_change_24h data) 0)
     + rubric_market_cap (dict_get (ad_market_cap data) 0)
     + rubric_holders (dict_get (ad_holders data) 0)
     + rubric_distribution (dict_get (ad_top_10_share data) 100)
     + rubric_security (dict_get (ad_rug_pull_risk data) True)
   \<and> rubric_usd (99999999 / 100) = 2 \<and> rubric_usd 1000000 = 3
   \<and> rubric_usd 10000 = 1 \<and> rubric_usd (999999 / 100) = 0"
proof -
  have "fst (calculate_score data) = fst (score_blocks data)"
    using score_blocks_range [of data] by (simp add: calculate_score_fst)
  then show ?thesis
    by (simp add: score_blocks_fst rubric_usd_def)
qed

lemma calculate_score_volume_boundary:
  "fst (calculate_score (data\<lparr>ad_volume_24h := Some 1000000\<rparr>))
     = fst (calculate_score (data\<lparr>ad_volume_24h := Some (99999999 / 100)\<rparr>)) + 1"
proof -
  have "fst (calculate_score d) = fst (score_blocks d)" for d :: "'a analysis_data_scheme"
    using score_blocks_range [of d] by (simp add: calculate_score_fst)
  then show ?thesis
    by (simp add: score_blocks_fst rubric_usd_def dict_get_def)
qed

lemmas score_block_defs =
  score_pools_def score_volume_def score_liquidity_def score_stability_def
  score_market_cap_def score_holders_def score_distribution_def score_security_def

lemma calculate_score_absent_stability:
  "score_stability (data\<lparr>ad_price_change_24h := None\<rparr>) (score, explanations) =
     (score + 2, explanations @ [''**Stabilite** : +2/2 pts (+-5% = tres stable)''])"
  by (simp add: score_stability_def dict_get_def)

text \<open>
  C10. A key that the dict lacks is read at its default: the score of a record is the score
  of the record in which every absent field holds its default, 0 for the numeric fields,
  100 for the top-10 share and true for the rug-pull risk. With the top-10 share absent
  the distribution block adds no point, and with the rug-pull risk absent the security
  block adds no point: the worst band of both. The blocks of the pools, the volume, the
  liquidity, the market cap and the holders add no point either when their field is
  absent.
\<close>

theorem calculate_score_defaults:
  "calculate_score data =
     calculate_score (data\<lparr>ad_pools := Some (dict_get (ad_pools data) 0),
        ad_volume_24h := Some (dict_get (ad_volume_24h data) 0),
        ad_liquidity := Some (dict_get (ad_liquidity data) 0),
        ad_price_change_24h := Some (dict_get (ad_price_change_24h data) 0),
        ad_market_cap := Some (dict_get (ad_market_cap data) 0),
        ad_holders := Some (dict_get (ad_holders data) 0),
        ad_top_10_share := Some (dict_get (ad_top_10_share data) 100),
        ad_rug_pull_risk := Some (dict_get (ad_rug_pull_risk data) True)\<rparr>)
   \<and> score_distribution (data\<lparr>ad_top_10_share := None\<rparr>) (score, explanations) =
       (score, explanations @ [''**Distribution** : +0/2 pts (>50% = tres centralise)''])
   \<and> score_security (data\<lparr>ad_rug_pull_risk := None\<rparr>) (score, explanations) =
       (score, explanations @ [''**Securite** : +0/2 pts (autorites actives = risque eleve)''])
   \<and> fst (score_pools (data\<lparr>ad_pools := None\<rparr>) (score, explanations)) = score
   \<and> fst (score_volume (data\<lparr>ad_volume_24h := None\<rparr>) (score, explanations)) = score
   \<and> fst (score_liquidity (data\<lparr>ad_liquidity := None\<rparr>) (score, explanations)) = score
   \<and> fst (score_market_cap (data\<lparr>ad_market_cap := None\<rparr>) (score, explanations)) = score
   \<and> fst (score_holders (data\<lparr>ad_holders := None\<rparr>) (score, explanations)) = score"
proof -
  have "calculate_score data =
     calculate_score (data\<lparr>ad_pools := Some (dict_get (ad_pools data) 0),
        ad_volume_24h := Some (dict_get (ad_volume_24h data) 0),
        ad_liquidity := Some (dict_get (ad_liquidity data) 0),
        ad_price_change_24h := Some (dict_get (ad_price_change_24h data) 0),
        ad_market_cap := Some (dict_get (ad_market_cap data) 0),
        ad_holders := Some (dict_get (ad_holders data) 0),
        ad_top_10_share := Some (dict_get (ad_top_10_share data) 100),
        ad_rug_pull_risk := Some (dict_get (ad_rug_pull_risk data) True)\<rparr>)"
    by (simp add: calculate_score_def score_blocks_def score_block_defs dict_get_def)
  moreover have "score_distribution (data\<lparr>ad_top_10_share := None\<rparr>) (score, explanations) =
       (score, explanations @ [''**Distribution** : +0/2 pts (>50% = tres centralise)''])"
    by (simp add: score_distribution_def dict_get_def)
  moreover have "score_security (data\<lparr>ad_rug_pull_risk := None\<rparr>) (score, explanations) =
       (score, explanations @ [''**Securite** : +0/2 pts (autorites actives = risque eleve)''])"
    by (simp add: score_security_def dict_get_def)
  moreover have "fst (score_pools (data\<lparr>ad_pools := None\<rparr>) (score, explanations)) = score"
    by (simp add: score_pools_def dict_get_def)
  moreover have "fst (score_volume (data\<lparr>ad_volume_24h := None\<rparr>) (score, explanations)) = score"
    by (simp add: score_volume_def dict_get_def)
  moreover have "fst (score_liquidity (data\<lparr>ad_liquidity := None\<rparr>) (score, explanations)) = score"
    by (simp add: score_liquidity_def dict_get_def)
  moreover have "fst (score_market_cap (data\<lparr>ad_market_cap := None\<rparr>) (score, explanations)) = score"
    by (simp add: score_market_cap_def dict_get_def)
  moreover have "fst (score_holders (data\<lparr>ad_holders := None\<rparr>) (score, explanations)) = score"
    by (simp add: score_holders_def dict_get_def)
  ultimately show ?thesis by blast
qed

section \<open>Properties of the aggregator\<close>

lemma compile_analysis_fields:
  "ad_supply (compile_analysis mint dex md si hi rug) = py_or (si_supply si) (md_supply md)"
  "ad_decimals (compile_analysis mint dex md si hi rug) = py_or (si_decimals si) (md_decimals md)"
  "ad_price_usd (compile_analysis mint dex md si hi rug) = dex_price_usd dex"
  "ad_market_cap (compile_analysis mint dex md si hi rug) =
     Some (calculate_market_cap (dex_price_usd dex)
       (py_or (si_supply si) (md_supply md)) (py_or (si_decimals si) (md_decimals md)))"
  by (simp_all add: compile_analysis_def Let_def analysis_data.defs split: prod.split)

text \<open>
  C4. In the merge step the supply of the record is the ledger source's supply when that
  is not zero, whatever the metadata source holds, and the metadata source's supply when
  the ledger source's is zero; the decimals follow the same rule on their own.
\<close>

theorem supply_merge_precedence:
  "ad_supply (compile_analysis mint dex md si hi rug) =
     (if si_supply si \<noteq> 0 then si_supply si else md_supply md)
   \<and> ad_decimals (compile_analysis mint dex md si hi rug) =
     (if si_decimals si \<noteq> 0 then si_decimals si else md_decimals md)"
  by (simp add: compile_analysis_fields py_or_def)



text \<open>
  C3. The validator accepts exactly the strings of 32 to 44 characters that base-58
  decoding does not reject. On a string it rejects, \<^verbatim>\<open>analyze_token\<close> returns the
  invalid-identifier error and the list of issued requests is the one it was given: no
  network call is made.
\<close>

theorem is_valid_mint_gate:
  "is_valid_mint L mint = (32 \<le> length mint \<and> length mint \<le> 44 \<and> b58decode L mint \<noteq> None)
   \<and> (\<not> is_valid_mint L mint \<longrightarrow>
        analyze_token L net mint sent = (Error ''Mint address invalide'', sent))"
  by (auto simp: is_valid_mint_def analyze_token_def split: option.splits)

theorem is_valid_mint_gate_witness:
  "\<not> is_valid_mint plain_lib ''So11111111111111111111111111111111111111110''
   \<and> analyze_token plain_lib net_down ''So11111111111111111111111111111111111111110'' []
       = (Error ''Mint address invalide'', [])
   \<and> \<not> is_valid_mint plain_lib ''abc''
   \<and> is_valid_mint plain_lib system_mint"
  using is_valid_mint_gate [of plain_lib "''So11111111111111111111111111111111111111110''" net_down "[]"]
    is_valid_mint_gate [of plain_lib "''abc''" net_down "[]"]
    is_valid_mint_gate [of plain_lib system_mint net_down "[]"]
  by (simp add: plain_lib_def plain_b58decode_def system_mint_def b58_alphabet_def)

section \<open>Properties of the risk assessor\<close>

lemma json_path_get:
  "ks \<noteq> [] \<Longrightarrow>
     json_path j (k # ks) = Option.bind (py_get j k (JObj [])) (\<lambda>v. json_path v ks)"
  by (cases j; cases ks) (simp_all split: option.split)

lemma json_path_falsy: "\<not> truthy j \<Longrightarrow> json_path j (k # ks) = None"
  by (cases j) simp_all

lemma json_path_get_truthy:
  "py_get j k JNull = Some v \<Longrightarrow> truthy v \<Longrightarrow> json_path j (k # ks) = json_path v ks"
  by (cases j) (auto split: option.splits)

lemma json_path_get_falsy:
  "py_get j k JNull = Some v \<Longrightarrow> \<not> truthy v \<Longrightarrow> ks \<noteq> [] \<Longrightarrow> json_path j (k # ks) = None"
  by (cases j; cases ks) (auto split: option.splits simp: json_path_falsy)

lemma json_path_get_None: "py_get j k d = None \<Longrightarrow> json_path j (k # ks) = None"
  by (cases j) simp_all

lemma info_level:
  "(case do { freeze_authority \<leftarrow> py_get info ''freezeAuthority'' JNull;
              mint_authority \<leftarrow> py_get info ''mintAuthority'' JNull;
              Some (freeze_authority \<noteq> JNull \<or> mint_authority \<noteq> JNull) }
    of None \<Rightarrow> False | Some risk \<Rightarrow> risk) =
   ((case json_path info [''freezeAuthority''] of None \<Rightarrow> False | Some v \<Rightarrow> v \<noteq> JNull)
     \<or> (case json_path info [''mintAuthority''] of None \<Rightarrow> False | Some v \<Rightarrow> v \<noteq> JNull))"
  by (cases info) (simp_all split: option.split)

lemma rug_pull_body_authorities:
  "(case rug_pull_body (Response 200 (Some data)) of Some risk \<Rightarrow> risk | None \<Rightarrow> False)
    = (authority_present data ''freezeAuthority'' \<or> authority_present data ''mintAuthority'')"
proof -
  let ?P = "\<lambda>j ks. (case json_path j ks of None \<Rightarrow> False | Some v \<Rightarrow> v \<noteq> JNull)"
  let ?below_info = "\<lambda>info. do {
      freeze_authority \<leftarrow> py_get info ''freezeAuthority'' JNull;
      mint_authority \<leftarrow> py_get info ''mintAuthority'' JNull;
      Some (freeze_authority \<noteq> JNull \<or> mint_authority \<noteq> JNull) }"
  let ?below_data = "\<lambda>d. do {
      parsed_data \<leftarrow> py_get d ''parsed'' (JObj []);
      info \<leftarrow> py_get parsed_data ''info'' (JObj []);
      ?below_info info }"
  let ?below_value = "\<lambda>val. if truthy val then do {
      d \<leftarrow> py_get val ''data'' JNull;
      if truthy d then ?below_data d else None } else None"
  let ?R = "\<lambda>x. (case x of None \<Rightarrow> False | Some risk \<Rightarrow> risk)"
  have data_level: "?R (?below_data d) =
      (?P d [''parsed'', ''info'', ''freezeAuthority'']
       \<or> ?P d [''parsed'', ''info'', ''mintAuthority''])" for d
  proof (cases "py_get d ''parsed'' (JObj [])")
    case None
    then show ?thesis by (simp add: json_path_get_None)
  next
    case (Some parsed_data)
    show ?thesis
    proof (cases "py_get parsed_data ''info'' (JObj [])")
      case None
      with Some show ?thesis by (simp add: json_path_get json_path_get_None)
    next
      case info: (Some info)
      have "?R (?below_data d) = ?R (?below_info info)"
        using Some info by simp
      also have "\<dots> = (?P info [''freezeAuthority''] \<or> ?P info [''mintAuthority''])"
        by (rule info_level)
      also have "\<dots> = (?P d [''parsed'', ''info'', ''freezeAuthority'']
          \<or> ?P d [''parsed'', ''info'', ''mintAuthority''])"
        using Some info by (simp add: json_path_get)
      finally show ?thesis .
    qed
  qed
  have value_level: "?R (?below_value val) =
      (?P val [''data'', ''parsed'', ''info'', ''freezeAuthority'']
       \<or> ?P val [''data'', ''parsed'', ''info'', ''mintAuthority''])" for val
  proof (cases "truthy val")
    case False
    then show ?thesis by (simp add: json_path_falsy)
  next
    case True
    show ?thesis
    proof (cases "py_get val ''data'' JNull")
      case None
      with True show ?thesis by (simp add: json_path_get_None)
    next
      case (Some d)
      show ?thesis
      proof (cases "truthy d")
        case False
        with True Some show ?thesis by (simp add: json_path_get_falsy)
      next
        case td: True
        have "?R (?below_value val) = ?R (?below_data d)"
          using True Some td by simp
        also have "\<dots> = (?P d [''parsed'', ''info'', ''freezeAuthority'']
            \<or> ?P d [''parsed'', ''info'', ''mintAuthority''])"
          by (rule data_level)
        also have "\<dots> = (?P val [''data'', ''parsed'', ''info'', ''freezeAuthority'']
            \<or> ?P val [''data'', ''parsed'', ''info'', ''mintAuthority''])"
          using Some td by (simp add: json_path_get_truthy)
        finally show ?thesis .
      qed
    qed
  qed
  show ?thesis
  proof (cases "py_get data ''result'' (JObj [])")
    case None
    then show ?thesis
      by (simp add: rug_pull_body_def authority_present_def json_path_get_None)
  next
    case (Some result)
    show ?thesis
    proof (cases "py_get result ''value'' (JObj [])")
      case None
      with Some show ?thesis
        by (simp add: rug_pull_body_def authority_present_def json_path_get json_path_get_None)
    next
      case val: (Some val)
      have "?R (rug_pull_body (Response 200 (Some data))) = ?R (?below_value val)"
        unfolding rug_pull_body_def Let_def using Some val by simp
      also have "\<dots> = (?P val [''data'', ''parsed'', ''info'', ''freezeAuthority'']
          \<or> ?P val [''data'', ''parsed'', ''info'', ''mintAuthority''])"
        by (rule value_level)
      also have "\<dots> = (authority_present data ''freezeAuthority''
          \<or> authority_present data ''mintAuthority'')"
        using Some val by (simp add: authority_present_def json_path_get)
      finally show ?thesis .
    qed
  qed
qed

text \<open>
  C8. The risk assessor issues one account-info request. It returns true exactly when the
  call returns status 200 with a body that decodes and whose parsed account holds a
  \<^verbatim>\<open>freezeAuthority\<close> or a \<^verbatim>\<open>mintAuthority\<close> that is not null; when the call raises an
  exception, when the status is not 200, and when the body does not decode or does not
  have that shape, it returns false. A cancelled call is the one case in which it does
  not return: the cancellation is not an \<^verbatim>\<open>Exception\<close> and passes its handler.
\<close>

theorem check_rug_pull_risk_authorities:
  "check_rug_pull_risk net mint sent =
     ((case net (length sent) (SolanaGetAccountInfo mint) of
         Cancelled \<Rightarrow> Cancelled_error
       | Done Raises \<Rightarrow> Returned False
       | Done (Response status None) \<Rightarrow> Returned False
       | Done (Response status (Some data)) \<Rightarrow>
           Returned (status = 200
             \<and> (authority_present data ''freezeAuthority''
                  \<or> authority_present data ''mintAuthority''))),
      sent @ [SolanaGetAccountInfo mint])"
proof (cases "net (length sent) (SolanaGetAccountInfo mint)")
  case Cancelled
  then show ?thesis
    by (simp add: check_rug_pull_risk_def http_def)
next
  case (Done resp)
  show ?thesis
  proof (cases resp)
    case Raises
    with Done show ?thesis
      by (simp add: check_rug_pull_risk_def http_def rug_pull_body_def)
  next
    case (Response status body)
    show ?thesis
    proof (cases body)
      case None
      with Done Response show ?thesis
        by (simp add: check_rug_pull_risk_def http_def rug_pull_body_def)
    next
      case (Some data)
      show ?thesis
      proof (cases "status = 200")
        case True
        with Done Response Some rug_pull_body_authorities [of data] show ?thesis
          by (simp add: check_rug_pull_risk_def http_def)
      next
        case False
        with Done Response Some show ?thesis
          by (simp add: check_rug_pull_risk_def http_def rug_pull_body_def)
      qed
    qed
  qed
qed

lemma check_rug_pull_risk_example:
  "fst (check_rug_pull_risk net_authorities system_mint []) = Returned True
   \<and> fst (check_rug_pull_risk net_revoked system_mint []) = Returned False
   \<and> fst (check_rug_pull_risk net_down system_mint []) = Returned False"
  by (simp add: check_rug_pull_risk_def http_def rug_pull_body_authorities net_authorities_def
      net_revoked_def net_down_def account_info_def authority_present_def rug_pull_body_def)

section \<open>Properties of the holder distribution\<close>

lemma float_rank_inj: "float_rank x = float_rank y \<Longrightarrow> x = y"
  by (cases x; cases y) auto

lemma filter_eq_replicate: "filter (\<lambda>x. k = x) zs = replicate (count (mset zs) k) k"
  by (induction zs) auto

lemma sort_key_float_rank_perm:
  assumes "mset xs = mset ys"
  shows "sort_key float_rank xs = sort_key float_rank ys"
proof (rule properties_for_sort_key)
  show "mset (sort_key float_rank ys) = mset xs" using assms by simp
  show "sorted (map float_rank (sort_key float_rank ys))" by (rule sorted_sort_key)
next
  fix k assume "k \<in> set (sort_key float_rank ys)"
  have eq: "(\<lambda>x. float_rank k = float_rank x) = (\<lambda>x. k = x)"
    by (auto dest: float_rank_inj)
  show "filter (\<lambda>x. float_rank k = float_rank x) (sort_key float_rank ys)
      = filter (\<lambda>x. float_rank k = float_rank x) xs"
    unfolding eq filter_eq_replicate using assms by simp
qed

lemma map_sort_key_comp: "map f (sort_key (\<lambda>x. g (f x)) xs) = sort_key g (map f xs)"
proof (induction xs)
  case Nil show ?case by simp
next
  case (Cons a xs)
  have ins: "\<And>ys. map f (insort_key (\<lambda>x. g (f x)) a ys) = insort_key g (f a) (map f ys)"
    by (induct_tac ys) auto
  show ?case using Cons by (simp add: ins)
qed

lemma map_sort_reverse: "map key (sort_reverse key xs) = sort_desc (map key xs)"
proof -
  have "map key (sort_reverse key xs)
          = rev (map key (sort_key (\<lambda>x. float_rank (key x)) (rev xs)))"
    by (simp add: sort_reverse_def rev_map)
  also have "map key (sort_key (\<lambda>x. float_rank (key x)) (rev xs))
          = sort_key float_rank (map key (rev xs))"
    by (rule map_sort_key_comp)
  also have "sort_key float_rank (map key (rev xs)) = sort_key float_rank (map key xs)"
    by (rule sort_key_float_rank_perm) simp
  finally show ?thesis by (simp add: sort_desc_def)
qed

lemma sort_desc_idem: "sort_desc (sort_desc balances) = sort_desc balances"
proof -
  have "sort_key float_rank (sort_desc balances) = sort_key float_rank balances"
    by (rule sort_key_float_rank_perm) (simp add: sort_desc_def)
  then show ?thesis by (simp add: sort_desc_def)
qed

lemma float_gt0_nonzero: "float_gt0 x \<Longrightarrow> x \<noteq> 0"
  by (cases x) (auto simp: zero_pyfloat_def)

lemma share_code_spec:
  assumes "t = 0 \<or> float_gt0 t"
  shows "(if float_gt0 t then do {
            quotient \<leftarrow> py_div L top10 t;
            Some (float_round2 L (float_mul L quotient (Finite 100))) }
          else Some 0)
       = Some (if t = 0 then 0
               else float_round2 L (float_mul L (float_div L top10 t) (Finite 100)))"
  using assms float_gt0_nonzero [of t] by (auto simp: py_div_def)

lemma holders_summary_share:
  assumes "hs \<noteq> []"
    and "py_sum L (sort_desc (map amount hs)) = 0
         \<or> float_gt0 (py_sum L (sort_desc (map amount hs)))"
  shows "holders_summary L hs = Some \<lparr>hi_holders = int (length hs),
           hi_top_10_share = top10_share_pct L (sort_desc (map amount hs))\<rparr>"
proof -
  have top: "map amount (take 10 (sort_reverse amount hs))
               = take 10 (sort_desc (map amount hs))"
    unfolding take_map [symmetric] map_sort_reverse ..
  note share = share_code_spec [OF assms(2), of L "py_sum L (take 10 (sort_desc (map amount hs)))"]
  show ?thesis
    unfolding holders_summary_def Let_def top10_share_pct_def map_sort_reverse top
      sort_desc_idem share
    using assms(1) by simp
qed

lemma helius_body_share:
  assumes "py_get data ''result'' (JObj []) = Some result"
    and "py_get result ''token_accounts'' (JArr []) = Some (JArr accounts)"
    and "helius_accounts L accounts = Some hs" and "hs \<noteq> []"
    and "py_sum L (sort_desc (map amount hs)) = 0
         \<or> float_gt0 (py_sum L (sort_desc (map amount hs)))"
  shows "helius_body L (Response 200 (Some data)) =
           Some \<lparr>hi_holders = int (length hs),
                 hi_top_10_share = top10_share_pct L (sort_desc (map amount hs))\<rparr>"
proof -
  have "accounts \<noteq> []" using assms(3,4) by auto
  moreover note holders_summary_share [OF assms(4,5)]
  ultimately show ?thesis
    using assms(1,2,3) by (simp add: helius_body_def)
qed

lemma fallback_body_share:
  assumes "py_get data ''result'' (JArr []) = Some (JArr accounts)"
    and "fallback_accounts L accounts = Some hs" and "hs \<noteq> []"
    and "py_sum L (sort_desc (map amount hs)) = 0
         \<or> float_gt0 (py_sum L (sort_desc (map amount hs)))"
  shows "fallback_body L (Response 200 (Some data)) =
           Some \<lparr>hi_holders = int (length hs),
                 hi_top_10_share = top10_share_pct L (sort_desc (map amount hs))\<rparr>"
  using assms(1,2) holders_summary_share [OF assms(3,4)]
  by (simp add: fallback_body_def)

lemma solscan_body_share:
  assumes "solscan_holders_data data = Some (JArr entries)"
    and "those (map (solscan_amount L) entries) = Some keyed" and "entries \<noteq> []"
    and "py_sum L (map fst keyed) = 0 \<or> float_gt0 (py_sum L (map fst keyed))"
  shows "solscan_body L (Response 200 (Some data)) =
           Some \<lparr>hi_holders = int (length entries),
                 hi_top_10_share = top10_share_pct L (map fst keyed)\<rparr>"
proof -
  have top: "map fst (take 10 (sort_reverse fst keyed)) = take 10 (sort_desc (map fst keyed))"
    unfolding take_map [symmetric] map_sort_reverse ..
  note share = share_code_spec [OF assms(4), of L "py_sum L (take 10 (sort_desc (map fst keyed)))"]
  have "solscan_body L (Response 200 (Some data)) =
          (if float_gt0 (py_sum L (map fst keyed)) then do {
             quotient \<leftarrow> py_div L (py_sum L (take 10 (sort_desc (map fst keyed))))
                          (py_sum L (map fst keyed));
             Some (float_round2 L (float_mul L quotient (Finite 100))) }
           else Some 0) \<bind>
          (\<lambda>top_10_share. Some \<lparr>hi_holders = int (length entries),
                                  hi_top_10_share = top_10_share\<rparr>)"
    using assms(1,2,3) by (simp add: solscan_body_def Let_def top)
  then show ?thesis
    unfolding share top10_share_pct_def Let_def by simp
qed

text \<open>
  C7. When a strategy's call answers 200 with a list of accounts from which the strategy
  reads at least one balance, the top-10 share it returns is that of the specification:
  the balances sorted in descending order, the first ten summed, times 100 over the sum of
  all balances, rounded to two decimals, and 0 when the sum is 0, where the sums, the
  quotient, the product and the rounding are those of Python's floats. The indexer
  strategy and the ledger scan keep the positive balances only and add them up in
  descending order; the listing strategy keeps every entry and adds the balances up in
  the order of the listing. The statement is for a sum that is zero or positive, which
  the sum of positive doubles is.
\<close>

theorem top_10_share_of_strategies:
  "(net (length sent) (HeliusGetTokenAccounts mint) = Done (Response 200 (Some data_a))
      \<and> py_get data_a ''result'' (JObj []) = Some result_a
      \<and> py_get result_a ''token_accounts'' (JArr []) = Some (JArr accounts_a)
      \<and> helius_accounts L accounts_a = Some hs_a \<and> hs_a \<noteq> []
      \<and> (py_sum L (sort_desc (map amount hs_a)) = 0
           \<or> float_gt0 (py_sum L (sort_desc (map amount hs_a))))
    \<longrightarrow> get_holders_info_helius L net mint sent =
          (Returned \<lparr>hi_holders = int (length hs_a),
                     hi_top_10_share = top10_share_pct L (sort_desc (map amount hs_a))\<rparr>,
           sent @ [HeliusGetTokenAccounts mint]))
   \<and> (net (length sent) (SolanaGetProgramAccounts mint) = Done (Response 200 (Some data_c))
      \<and> py_get data_c ''result'' (JArr []) = Some (JArr accounts_c)
      \<and> fallback_accounts L accounts_c = Some hs_c \<and> hs_c \<noteq> []
      \<and> (py_sum L (sort_desc (map amount hs_c)) = 0
           \<or> float_gt0 (py_sum L (sort_desc (map amount hs_c))))
    \<longrightarrow> get_holders_info_fallback L net mint sent =
          (Returned \<lparr>hi_holders = int (length hs_c),
                     hi_top_10_share = top10_share_pct L (sort_desc (map amount hs_c))\<rparr>,
           sent @ [SolanaGetProgramAccounts mint]))
   \<and> (net (length sent) (SolscanTokenHolders mint) = Done (Response 200 (Some data_b))
      \<and> solscan_holders_data data_b = Some (JArr entries)
      \<and> those (map (solscan_amount L) entries) = Some keyed \<and> entries \<noteq> []
      \<and> (py_sum L (map fst keyed) = 0 \<or> float_gt0 (py_sum L (map fst keyed)))
    \<longrightarrow> get_holders_info_solscan_alternative L net mint sent =
          (Returned \<lparr>hi_holders = int (length entries),
                     hi_top_10_share = top10_share_pct L (map fst keyed)\<rparr>,
           sent @ [SolscanTokenHolders mint]))"
proof (intro conjI impI)
  assume "net (length sent) (HeliusGetTokenAccounts mint) = Done (Response 200 (Some data_a))
      \<and> py_get data_a ''result'' (JObj []) = Some result_a
      \<and> py_get result_a ''token_accounts'' (JArr []) = Some (JArr accounts_a)
      \<and> helius_accounts L accounts_a = Some hs_a \<and> hs_a \<noteq> []
      \<and> (py_sum L (sort_desc (map amount hs_a)) = 0
           \<or> float_gt0 (py_sum L (sort_desc (map amount hs_a))))"
  then show "get_holders_info_helius L net mint sent =
          (Returned \<lparr>hi_holders = int (length hs_a),
                     hi_top_10_share = top10_share_pct L (sort_desc (map amount hs_a))\<rparr>,
           sent @ [HeliusGetTokenAccounts mint])"
    using helius_body_share [of data_a result_a accounts_a L hs_a]
    by (simp add: get_holders_info_helius_def http_def)
next
  assume "net (length sent) (SolanaGetProgramAccounts mint) = Done (Response 200 (Some data_c))
      \<and> py_get data_c ''result'' (JArr []) = Some (JArr accounts_c)
      \<and> fallback_accounts L accounts_c = Some hs_c \<and> hs_c \<noteq> []
      \<and> (py_sum L (sort_desc (map amount hs_c)) = 0
           \<or> float_gt0 (py_sum L (sort_desc (map amount hs_c))))"
  then show "get_holders_info_fallback L net mint sent =
          (Returned \<lparr>hi_holders = int (length hs_c),
                     hi_top_10_share = top10_share_pct L (sort_desc (map amount hs_c))\<rparr>,
           sent @ [SolanaGetProgramAccounts mint])"
    using fallback_body_share [of data_c accounts_c L hs_c]
    by (simp add: get_holders_info_fallback_def http_def)
next
  assume "net (length sent) (SolscanTokenHolders mint) = Done (Response 200 (Some data_b))
      \<and> solscan_holders_data data_b = Some (JArr entries)
      \<and> those (map (solscan_amount L) entries) = Some keyed \<and> entries \<noteq> []
      \<and> (py_sum L (map fst keyed) = 0 \<or> float_gt0 (py_sum L (map fst keyed)))"
  then show "get_holders_info_solscan_alternative L net mint sent =
          (Returned \<lparr>hi_holders = int (length entries),
                     hi_top_10_share = top10_share_pct L (map fst keyed)\<rparr>,
           sent @ [SolscanTokenHolders mint])"
    using solscan_body_share [of data_b entries L keyed]
    by (simp add: get_holders_info_solscan_alternative_def http_def)
qed

theorem top_10_share_of_strategies_witness:
  "get_holders_info_helius plain_lib (net_holders helius_response) system_mint []
     = (Returned \<lparr>hi_holders = 11, hi_top_10_share = Finite (9375 / 100)\<rparr>,
        [HeliusGetTokenAccounts system_mint])
   \<and> get_holders_info_fallback plain_lib (net_holders helius_response) system_mint []
     = (Returned \<lparr>hi_holders = 2, hi_top_10_share = Finite 100\<rparr>,
        [SolanaGetProgramAccounts system_mint])
   \<and> get_holders_info_solscan_alternative plain_lib (net_holders helius_response) system_mint []
     = (Returned \<lparr>hi_holders = 3, hi_top_10_share = Finite 100\<rparr>,
        [SolscanTokenHolders system_mint])"
  using top_10_share_of_strategies [where L = plain_lib and net = "net_holders helius_response"
      and mint = system_mint and sent = "[]"
      and data_a = helius_response
      and result_a = "JObj [(''token_accounts'',
                        JArr (map helius_account [1, 6, 0, 1, 1, 1, 1, 1, 1, 1, 1, 1]))]"
      and accounts_a = "map helius_account [1, 6, 0, 1, 1, 1, 1, 1, 1, 1, 1, 1]"
      and hs_a = helius_holders
      and data_c = ledger_response
      and accounts_c = "[program_account ''70'', program_account ''30'']"
      and hs_c = ledger_holders
      and data_b = solscan_response and entries = solscan_entries
      and keyed = "zip [Finite 30, Finite 0, Finite 70] solscan_entries"]
  by (simp add: net_holders_def helius_response_def helius_account_def helius_holders_def
      ledger_response_def program_account_def ledger_holders_def token_amount_of_def
      plain_lib_def plain_number_def digit_of_def solscan_response_def solscan_entries_def
      solscan_holders_data_def solscan_amount_def top10_share_pct_def half_even_2_def Let_def
      sort_desc_def py_sum_def exact_op_def zero_pyfloat_def)

section \<open>The order of the holder strategies\<close>

text \<open>
  What \<^verbatim>\<open>get_holders_info\<close> does, in terms of the three strategies' own \<^verbatim>\<open>try\<close> blocks: the
  indexer request first; when it gives nothing the ledger scan, called by the indexer
  method itself; then the listing; then the ledger scan a second time. A cancelled call
  ends the chain.
\<close>

lemma holders_summary_holders: "holders_summary L hs = Some h \<Longrightarrow> 0 < hi_holders h"
  by (auto simp: holders_summary_def Let_def split: if_splits Option.bind_splits)

lemma helius_body_holders: "helius_body L resp = Some h \<Longrightarrow> 0 < hi_holders h"
  by (auto simp: helius_body_def holders_summary_holders
      split: response.splits if_splits Option.bind_splits)

lemma fallback_body_holders: "fallback_body L resp = Some h \<Longrightarrow> 0 < hi_holders h"
  by (auto simp: fallback_body_def holders_summary_holders
      split: response.splits if_splits Option.bind_splits)

lemma truthy_py_iter: "truthy j \<Longrightarrow> py_iter j = Some xs \<Longrightarrow> xs \<noteq> []"
  by (cases j) auto

lemma solscan_body_holders: "solscan_body L resp = Some h \<Longrightarrow> 0 < hi_holders h"
  by (auto simp: solscan_body_def Let_def dest: truthy_py_iter
      split: response.splits if_splits Option.bind_splits)

lemma get_holders_info_chain:
  "get_holders_info L net mint sent =
     (let n = length sent;
          a = HeliusGetTokenAccounts mint;
          b = SolscanTokenHolders mint;
          c = SolanaGetProgramAccounts mint
      in case net n a of
           Cancelled \<Rightarrow> (Cancelled_error, sent @ [a])
         | Done indexer \<Rightarrow>
        (case helius_body L indexer of
           Some h \<Rightarrow> (Returned h, sent @ [a])
         | None \<Rightarrow>
        (case net (n + 1) c of
           Cancelled \<Rightarrow> (Cancelled_error, sent @ [a, c])
         | Done ledger \<Rightarrow>
        (case fallback_body L ledger of
           Some h \<Rightarrow> (Returned h, sent @ [a, c])
         | None \<Rightarrow>
        (case net (n + 2) b of
           Cancelled \<Rightarrow> (Cancelled_error, sent @ [a, c, b])
         | Done listing \<Rightarrow>
        (case solscan_body L listing of
           Some h \<Rightarrow> (Returned h, sent @ [a, c, b])
         | None \<Rightarrow>
        (case net (n + 3) c of
           Cancelled \<Rightarrow> (Cancelled_error, sent @ [a, c, b, c])
         | Done ledger \<Rightarrow>
             (Returned (case fallback_body L ledger of Some h \<Rightarrow> h | None \<Rightarrow> holders_zero),
              sent @ [a, c, b, c]))))))))"
proof -
  note defs = get_holders_info_def get_holders_info_helius_def get_holders_info_fallback_def
    get_holders_info_solscan_alternative_def http_def Let_def holders_zero_def
    eval_nat_numeral
  show ?thesis
  proof (cases "net (length sent) (HeliusGetTokenAccounts mint)")
    case Cancelled
    then show ?thesis by (simp add: defs)
  next
    case a: (Done indexer)
    show ?thesis
    proof (cases "helius_body L indexer")
      case (Some h)
      with a helius_body_holders [OF Some] show ?thesis by (simp add: defs)
    next
      case a': None
      show ?thesis
      proof (cases "net (length sent + 1) (SolanaGetProgramAccounts mint)")
        case Cancelled
        with a a' show ?thesis by (simp add: defs)
      next
        case c: (Done ledger)
        show ?thesis
        proof (cases "fallback_body L ledger")
          case (Some h)
          with a a' c fallback_body_holders [OF Some] show ?thesis by (simp add: defs)
        next
          case c': None
          show ?thesis
          proof (cases "net (length sent + 2) (SolscanTokenHolders mint)")
            case Cancelled
            with a a' c c' show ?thesis by (simp add: defs)
          next
            case b: (Done listing)
            show ?thesis
            proof (cases "solscan_body L listing")
              case (Some h)
              with a a' c c' b solscan_body_holders [OF Some] show ?thesis by (simp add: defs)
            next
              case b': None
              show ?thesis
              proof (cases "net (length sent + 3) (SolanaGetProgramAccounts mint)")
                case Cancelled
                with a a' c c' b b' show ?thesis by (simp add: defs)
              next
                case (Done ledger2)
                with a a' c c' b b' show ?thesis by (simp add: defs)
              qed
            qed
          qed
        qed
      qed
    qed
  qed
qed

text \<open>
  C1. The resolver is to try the indexer (A), then the listing (B), then the ledger scan
  (C), and to return the output of the first strategy with holders. On the network below
  the indexer answers with an empty list of accounts, the listing has three holders and the
  ledger scan two: the resolver returns the ledger scan's output after two requests, and the
  listing, which the specification puts second and which would give three holders, is never
  asked.
\<close>

theorem get_holders_info_skips_listing:
  "helius_body plain_lib (Response 200 (Some helius_empty)) = None
   \<and> get_holders_info plain_lib (net_holders helius_empty) system_mint []
       = (Returned \<lparr>hi_holders = 2, hi_top_10_share = Finite 100\<rparr>,
          [HeliusGetTokenAccounts system_mint, SolanaGetProgramAccounts system_mint])
   \<and> get_holders_info_solscan_alternative plain_lib (net_holders helius_empty) system_mint []
       = (Returned \<lparr>hi_holders = 3, hi_top_10_share = Finite 100\<rparr>,
          [SolscanTokenHolders system_mint])"
  by (simp add: get_holders_info_def get_holders_info_helius_def get_holders_info_fallback_def
      get_holders_info_solscan_alternative_def http_def helius_body_def fallback_body_def
      solscan_body_def holders_summary_def sort_reverse_def
      net_holders_def helius_empty_def
      ledger_response_def program_account_def token_amount_of_def
      plain_lib_def plain_number_def digit_of_def solscan_response_def solscan_entries_def
      solscan_holders_data_def solscan_amount_def half_even_2_def Let_def
      py_sum_def py_div_def exact_op_def zero_pyfloat_def)

section \<open>Fault isolation of the sources\<close>

text \<open>
  A source whose call raises an exception that its handler catches returns its default
  dict; a source whose call is cancelled raises the cancellation, which \<^verbatim>\<open>gather\<close> leaves in
  the slot of the source. When the five awaits return and the market cap does not raise,
  the result is the scored record compiled from the five values, and its score and
  explanations are those of \<^verbatim>\<open>calculate_score\<close> on it.
\<close>

lemma get_dexscreener_data_raises:
  "net (length sent) (DexscreenerTokens mint) = Done Raises \<Longrightarrow>
     get_dexscreener_data L net mint sent = (Returned dex_default, sent @ [DexscreenerTokens mint])"
  by (simp add: get_dexscreener_data_def http_def dexscreener_body_def)

lemma get_token_metadata_raises:
  "net (length sent) (HeliusGetAsset mint) = Done Raises \<Longrightarrow>
     get_token_metadata L net mint sent = (Returned metadata_default, sent @ [HeliusGetAsset mint])"
  by (simp add: get_token_metadata_def http_def metadata_body_def)

lemma get_token_supply_info_raises:
  "net (length sent) (SolanaGetTokenSupply mint) = Done Raises \<Longrightarrow>
     get_token_supply_info L net mint sent
       = (Returned supply_default, sent @ [SolanaGetTokenSupply mint])"
  by (simp add: get_token_supply_info_def http_def supply_body_def)

lemma get_holders_info_raises:
  "\<forall>i. net i (HeliusGetTokenAccounts mint) = Done Raises
       \<and> net i (SolscanTokenHolders mint) = Done Raises
       \<and> net i (SolanaGetProgramAccounts mint) = Done Raises \<Longrightarrow>
     fst (get_holders_info L net mint sent) = Returned holders_zero"
  by (simp add: get_holders_info_chain helius_body_def fallback_body_def solscan_body_def Let_def)

lemma get_dexscreener_data_cancelled:
  "net (length sent) (DexscreenerTokens mint) = Cancelled \<Longrightarrow>
     get_dexscreener_data L net mint sent = (Cancelled_error, sent @ [DexscreenerTokens mint])"
  by (simp add: get_dexscreener_data_def http_def)

lemma analyze_gathered_exception:
  "dex_slot = Cancelled_error \<or> metadata_slot = Cancelled_error
     \<or> supply_slot = Cancelled_error \<or> holders_slot = Cancelled_error \<Longrightarrow>
   analyze_gathered L mint dex_slot metadata_slot supply_slot holders_slot rug_pull_risk
     = Analysis_error"
  by (auto simp: analyze_gathered_def split: awaited.splits)

lemma analyze_token_returned:
  assumes "is_valid_mint L mint"
    and "get_dexscreener_data L net mint sent = (Returned dex, s1)"
    and "get_token_metadata L net mint s1 = (Returned md, s2)"
    and "get_token_supply_info L net mint s2 = (Returned si, s3)"
    and "get_holders_info L net mint s3 = (Returned hi, s4)"
    and "check_rug_pull_risk net mint s4 = (Returned rug, s5)"
    and "\<not> market_cap_raises L (py_or (si_supply si) (md_supply md))
             (py_or (si_decimals si) (md_decimals md))"
    and "dex_reals dex = Some d" and "holders_reals hi = Some h"
  shows "analyze_token L net mint sent = (Analysis (compile_analysis mint d md si h rug), s5)"
  using assms by (simp add: analyze_token_def analyze_gathered_def)

lemma extend_fields:
  "ad_pools (analysis_data.extend d e) = ad_pools d"
  "ad_volume_24h (analysis_data.extend d e) = ad_volume_24h d"
  "ad_liquidity (analysis_data.extend d e) = ad_liquidity d"
  "ad_price_change_24h (analysis_data.extend d e) = ad_price_change_24h d"
  "ad_market_cap (analysis_data.extend d e) = ad_market_cap d"
  "ad_holders (analysis_data.extend d e) = ad_holders d"
  "ad_top_10_share (analysis_data.extend d e) = ad_top_10_share d"
  "ad_rug_pull_risk (analysis_data.extend d e) = ad_rug_pull_risk d"
  by (simp_all add: analysis_data.defs)

lemma calculate_score_extend:
  "calculate_score (analysis_data.extend d e) = calculate_score d"
  unfolding calculate_score_def score_blocks_def score_block_defs extend_fields ..

lemma scored_record:
  assumes "r = (let (score, explanations) = calculate_score d
                in analysis_data.extend d \<lparr>ad_score = score, ad_explanations = explanations\<rparr>)"
  shows "(ad_score r, ad_explanations r) = calculate_score r"
proof (cases "calculate_score d")
  case (Pair score explanations)
  with assms have r:
    "r = analysis_data.extend d \<lparr>ad_score = score, ad_explanations = explanations\<rparr>"
    by simp
  have "ad_score r = score" "ad_explanations r = explanations"
    by (simp_all add: r analysis_data.defs)
  moreover have "calculate_score r = calculate_score d"
    unfolding r by (rule calculate_score_extend)
  ultimately show ?thesis using Pair by simp
qed

lemma compile_analysis_scored:
  "(ad_score (compile_analysis mint d m s h g), ad_explanations (compile_analysis mint d m s h g))
     = calculate_score (compile_analysis mint d m s h g)"
  by (rule scored_record) (simp add: compile_analysis_def Let_def)

lemma compile_analysis_sources:
  "ad_mint (compile_analysis mint dex md si hi rug) = mint"
  "ad_name (compile_analysis mint dex md si hi rug) = md_name md"
  "ad_symbol (compile_analysis mint dex md si hi rug) = md_symbol md"
  "ad_created_at (compile_analysis mint dex md si hi rug) = md_created_at md"
  "ad_pools (compile_analysis mint dex md si hi rug) = Some (dex_pools dex)"
  "ad_liquidity (compile_analysis mint dex md si hi rug) = Some (dex_liquidity dex)"
  "ad_volume_24h (compile_analysis mint dex md si hi rug) = Some (dex_volume_24h dex)"
  "ad_price_change_24h (compile_analysis mint dex md si hi rug) = Some (dex_price_change_24h dex)"
  "ad_holders (compile_analysis mint dex md si hi rug) = Some (hi_holders hi)"
  "ad_top_10_share (compile_analysis mint dex md si hi rug) = Some (hi_top_10_share hi)"
  "ad_rug_pull_risk (compile_analysis mint dex md si hi rug) = Some rug"
  by (simp_all add: compile_analysis_def Let_def analysis_data.defs split: prod.split)

text \<open>
  C2. When one of the four sources raises, \<^verbatim>\<open>analyze_token\<close> is to return the complete record
  all the same, with the defaults of that source. The sources are gathered with
  \<^verbatim>\<open>return_exceptions=True\<close>, but the slots are then read without a look at what they hold.
  On the first network below the call of the market source is cancelled, so that the source
  raises, and the holder strategies answer: \<^verbatim>\<open>analyze_token\<close> issues the five requests and
  returns the error dict of its handler. On the second network the same call raises an
  exception that the market source catches itself: the result is the complete record, with
  the market defaults and the eleven holders.
\<close>

theorem analyze_token_cancelled_source:
  "analyze_token plain_lib net_market_cancelled system_mint []
     = (Analysis_error,
        [DexscreenerTokens system_mint, HeliusGetAsset system_mint,
         SolanaGetTokenSupply system_mint, HeliusGetTokenAccounts system_mint,
         SolanaGetAccountInfo system_mint])
   \<and> analyze_token plain_lib (net_holders helius_response) system_mint []
     = (Analysis (compile_analysis system_mint dex_default metadata_default supply_default
          \<lparr>hi_holders = 11, hi_top_10_share = 9375 / 100\<rparr> False),
        [DexscreenerTokens system_mint, HeliusGetAsset system_mint,
         SolanaGetTokenSupply system_mint, HeliusGetTokenAccounts system_mint,
         SolanaGetAccountInfo system_mint])"
proof -
  have valid: "is_valid_mint plain_lib system_mint"
    by (simp add: is_valid_mint_def plain_lib_def plain_b58decode_def system_mint_def
        b58_alphabet_def)
  have holders: "\<And>sent. get_holders_info plain_lib (net_holders helius_response) system_mint sent
      = (Returned \<lparr>hi_holders = 11, hi_top_10_share = Finite (9375 / 100)\<rparr>,
         sent @ [HeliusGetTokenAccounts system_mint])"
    by (simp add: get_holders_info_chain Let_def net_holders_def helius_body_def
        helius_response_def helius_account_def holders_summary_def sort_reverse_def
        plain_lib_def half_even_2_def py_sum_def py_div_def exact_op_def zero_pyfloat_def)
  have first: "analyze_token plain_lib net_market_cancelled system_mint []
     = (Analysis_error,
        [DexscreenerTokens system_mint, HeliusGetAsset system_mint,
         SolanaGetTokenSupply system_mint, HeliusGetTokenAccounts system_mint,
         SolanaGetAccountInfo system_mint])"
    using valid
    by (simp add: analyze_token_def get_dexscreener_data_def get_token_metadata_def
        get_token_supply_info_def check_rug_pull_risk_def http_def net_market_cancelled_def
        get_holders_info_chain Let_def net_holders_def helius_body_def
        helius_response_def helius_account_def holders_summary_def sort_reverse_def
        plain_lib_def half_even_2_def py_sum_def py_div_def exact_op_def zero_pyfloat_def
        metadata_body_def supply_body_def rug_pull_body_def analyze_gathered_def)
  have second: "analyze_token plain_lib (net_holders helius_response) system_mint []
     = (Analysis (compile_analysis system_mint dex_default metadata_default supply_default
          \<lparr>hi_holders = 11, hi_top_10_share = 9375 / 100\<rparr> False),
        [DexscreenerTokens system_mint, HeliusGetAsset system_mint,
         SolanaGetTokenSupply system_mint, HeliusGetTokenAccounts system_mint,
         SolanaGetAccountInfo system_mint])"
    using valid holders
    by (simp add: analyze_token_def get_dexscreener_data_def get_token_metadata_def
        get_token_supply_info_def check_rug_pull_risk_def http_def
        net_holders_def dexscreener_body_def
        metadata_body_def supply_body_def rug_pull_body_def analyze_gathered_def
        market_cap_raises_def supply_default_def metadata_default_def py_or_def
        dex_reals_def holders_reals_def dex_default_def zero_pyfloat_def)
  from first second show ?thesis by simp
qed

end
